theory Spec2Isabelle
  imports Main
begin

section \<open>Strings and slices as Go has them\<close>

text \<open>
  A Go string is a sequence of bytes and \<open>len\<close> counts bytes, so a string is a
  \<^typ>\<open>string\<close> here. A slice expression \<open>s[:n]\<close> panics when \<open>n\<close> is negative
  or past the end; the panic is a value of the model.
\<close>

datatype panic = SliceBoundsOutOfRange

text \<open>\<open>strings.Join(s, "/")\<close>.\<close>

fun join :: "string list \<Rightarrow> string" where
  "join [] = []"
| "join [x] = x"
| "join (x # y # ys) = x @ ''/'' @ join (y # ys)"

text \<open>\<open>s[:n]\<close> on a string, with an \<open>int\<close> bound.\<close>

definition slice_to :: "string \<Rightarrow> int \<Rightarrow> panic + string" where
  "slice_to s n =
     (if 0 \<le> n \<and> n \<le> int (length s) then Inr (take (nat n) s)
      else Inl SliceBoundsOutOfRange)"

text \<open>Go's integer division truncates toward zero.\<close>

definition go_div :: "int \<Rightarrow> int \<Rightarrow> int" where
  "go_div a b = (if a < 0 then - ((- a) div b) else a div b)"

section \<open>The objects of the cluster API\<close>

text \<open>
  The Kubernetes and Envoy types are those of the libraries the repository imports;
  each is a record of the fields the translator reads or writes. A Go map that is only
  looked up is a map here; a Go map that is ranged over is a list of its entries, in the
  order the iteration happens to take.
\<close>

text \<open>\<^verbatim>\<open>type metadata struct { name, namespace string }\<close>\<close>

record metadata =
  name :: string
  namespace :: string

datatype IntOrString = FromInt int | FromString string

record IngressBackend =
  ServiceName :: string
  ServicePort :: IntOrString

record HTTPIngressPath =
  Path :: string
  Backend :: IngressBackend

text \<open>\<open>HTTP\<close> is a pointer in Go: \<open>None\<close> is \<open>nil\<close>.\<close>

record IngressRule =
  Host :: string
  HTTP :: "HTTPIngressPath list option"

record IngressTLS =
  Hosts :: "string list"
  SecretName :: string

record Ingress =
  ing_Name :: string
  ing_Namespace :: string
  ing_Annotations :: "string \<rightharpoonup> string"
  Spec_Backend :: "IngressBackend option"
  Spec_TLS :: "IngressTLS list"
  Spec_Rules :: "IngressRule list"

text \<open>\<open>i.Annotations[k]\<close>: the empty string when the key is absent.\<close>

definition annotation :: "Ingress \<Rightarrow> string \<Rightarrow> string" where
  "annotation i k = (case ing_Annotations i k of None \<Rightarrow> '''' | Some v \<Rightarrow> v)"

record Secret =
  sec_Name :: string
  sec_Namespace :: string
  Data :: "string \<rightharpoonup> string"

definition TLSCertKey :: string where
  "TLSCertKey = ''tls.crt''"

definition TLSPrivateKeyKey :: string where
  "TLSPrivateKeyKey = ''tls.key''"

text \<open>
  Modelled from the spec: the package \<open>apis/contour/v1beta1\<close> is missing. A backend
  service of a route, "each with optional integer weight", with the fields the tests
  construct; \<open>Weight\<close> is a pointer (\<open>None\<close> is \<open>nil\<close>: no weight given).
\<close>

record RouteService =
  rs_Name :: string
  rs_Port :: int
  rs_Weight :: "int option"

text \<open>
  Modelled from the spec: a route of an IngressRoute, "with a match path and a sequence
  of backend services".
\<close>

record IRoute =
  Match :: string
  Services :: "RouteService list"

text \<open>
  Modelled from the spec: the IngressRoute, "a richer variant carrying a FQDN and a
  sequence of routes"; the FQDN is \<open>Spec.VirtualHost.Fqdn\<close> in translator.go.
\<close>

record IngressRoute =
  ir_Name :: string
  ir_Namespace :: string
  ir_Annotations :: "string \<rightharpoonup> string"
  Fqdn :: string
  Routes :: "IRoute list"

record ServicePort =
  sp_Name :: string
  sp_Protocol :: string
  sp_Port :: int
  sp_TargetPort :: IntOrString

record Service =
  svc_Name :: string
  svc_Namespace :: string
  svc_Annotations :: "string \<rightharpoonup> string"
  Ports :: "ServicePort list"

text \<open>
  What an event carries: one of the four kinds the translator handles, a tombstone
  (\<open>cache.DeletedFinalStateUnknown\<close>) around an object, or anything else.
\<close>

datatype obj =
    ObjService Service
  | ObjIngress Ingress
  | ObjSecret Secret
  | ObjIngressRoute IngressRoute
  | DeletedFinalStateUnknown obj
  | ObjUnknown

section \<open>The entities of the proxy configuration\<close>

datatype TlsProtocol = TLSv1_1 | TLSv1_2 | TLSv1_3

record DownstreamTlsContext =
  TlsMinimumProtocolVersion :: TlsProtocol
  CertificateChain :: "string option"
  PrivateKey :: "string option"
  AlpnProtocols :: "string list"

text \<open>
  The HTTP connection manager filter that \<open>httpfilter(routename, accessLogPath)\<close> builds:
  everything else in it is constant.
\<close>

record Filter =
  filter_Name :: string
  route_config_name :: string
  access_log_path :: string

record FilterChain =
  SniDomains :: "string list option"
  TlsContext :: "DownstreamTlsContext option"
  Filters :: "Filter list"
  fc_UseProxyProto :: "bool option"

record Address =
  sa_Address :: string
  PortValue :: int

record Listener =
  l_Name :: string
  l_Address :: Address
  FilterChains :: "FilterChain list"

datatype RouteMatch = Prefix string | Regex string

datatype ClusterSpecifier =
    Cluster string
  | WeightedClusters "(string \<times> int) list"

text \<open>\<open>Timeout\<close> is in nanoseconds, as \<open>time.Duration\<close> is; \<open>None\<close> is a nil pointer.\<close>

record RouteAction =
  cluster_specifier :: ClusterSpecifier
  Timeout :: "int option"
  UseWebsocket :: "bool option"

datatype Action = Route_Route RouteAction | Route_Redirect bool

record Route =
  route_Match :: RouteMatch
  route_Action :: Action

record VirtualHost =
  vh_Name :: string
  Domains :: "string list"
  vh_Routes :: "Route list"

text \<open>
  A Cluster: its name and the service name of its endpoint discovery configuration. The
  other fields (connect timeout, load balancing policy, HTTP/2 and TLS options) are read
  by no property below and are left out.
\<close>

record EdsCluster =
  c_Name :: string
  eds_ServiceName :: string

section \<open>What the standard library provides\<close>

text \<open>
  The functions of Go's standard library the translation calls, as parameters:
  the hexadecimal SHA-256 digest of a string (\<open>crypto/sha256\<close> with \<open>fmt.Sprintf("%x")\<close>)
  and \<open>time.ParseDuration\<close> (\<open>None\<close> is its error), in nanoseconds. The spec does not
  list the "regex metacharacters" that make a path a regular expression; the test over
  them is a parameter too.
\<close>

record stdlib =
  lib_sha256hex :: "string \<Rightarrow> string"
  lib_ParseDuration :: "string \<Rightarrow> int option"
  lib_containsRegexMeta :: "string \<Rightarrow> bool"

section \<open>The state of the translator\<close>

text \<open>
  \<open>ListenerCache\<close> (listener.go): the configuration of the two listeners, and the
  embedded \<open>listenerCache\<close> and \<open>Cond\<close>. The declarations of these two embedded types
  are missing; they are the last two fields, modelled from the spec: a resource cache is
  a name-indexed collection ("Add replaces by name", "Remove silently tolerates unknown
  names"), so its contents are a map from names to entries; "Notify bumps the version",
  so a \<open>Cond\<close> is the number of notifications so far.
\<close>

record ListenerCache =
  HTTPAddress :: string
  HTTPPort :: int
  HTTPAccessLog :: string
  HTTPSAddress :: string
  HTTPSPort :: int
  HTTPSAccessLog :: string
  UseProxyProto :: bool
  listenerCache :: "string \<rightharpoonup> Listener"
  lc_Cond :: nat

text \<open>
  Modelled from the spec: the type \<open>VirtualHostCache\<close> is missing. The tests read its
  fields \<open>HTTP\<close> and \<open>HTTPS\<close> ("the last internally split into HTTP and HTTPS"), each a
  resource cache as above, and translator.go calls its \<open>Notify\<close>.
\<close>

record VirtualHostCache =
  vhc_HTTP :: "string \<rightharpoonup> VirtualHost"
  vhc_HTTPS :: "string \<rightharpoonup> VirtualHost"
  vhc_Cond :: nat

text \<open>
  Modelled from the spec: the type \<open>ClusterCache\<close> is missing; a resource cache of
  Clusters, as above.
\<close>

record ClusterCache =
  clusterCache :: "string \<rightharpoonup> EdsCluster"
  cc_Cond :: nat

text \<open>
  Modelled from the spec: the type \<open>translatorCache\<close> is missing. translator.go reads
  its fields \<open>ingresses\<close>, \<open>routes\<close>, \<open>secrets\<close>, \<open>vhosts\<close> and \<open>vhostroutes\<close>; the
  spec (Object Cache) describes "a process-local mapping from {kind, namespace, name} to
  the most recent version of each object, plus two secondary indices maintained
  incrementally: (a) host to set of Ingresses routing to that host; (b) host to set of
  IngressRoutes routing to that host".
\<close>

record translatorCache =
  ingresses :: "(metadata \<times> Ingress) list"
  routes :: "(metadata \<times> IngressRoute) list"
  secrets :: "metadata \<rightharpoonup> Secret"
  services :: "metadata \<rightharpoonup> Service"
  vhosts :: "string \<Rightarrow> (metadata \<times> Ingress) list"
  vhostroutes :: "string \<Rightarrow> (metadata \<times> IngressRoute) list"

text \<open>
  \<^verbatim>\<open>
  type Translator struct {
      logrus.FieldLogger
      ClusterCache
      ListenerCache
      VirtualHostCache
      IngressClass string
      cache translatorCache
  }
  \<close>
  The logger is the list of the messages logged so far.
\<close>

record Translator =
  FieldLogger :: "string list"
  t_ClusterCache :: ClusterCache
  t_ListenerCache :: ListenerCache
  t_VirtualHostCache :: VirtualHostCache
  IngressClass :: string
  cache :: translatorCache

section \<open>translator.go: hashname, truncate, min, servicename\<close>

text \<open>
  \<^verbatim>\<open>func min(a, b int) int { if a > b { return b }; return a }\<close>
\<close>

definition min_int :: "int \<Rightarrow> int \<Rightarrow> int" where
  "min_int a b = (if a > b then b else a)"

text \<open>
  \<^verbatim>\<open>
  func truncate(l int, s, suffix string) string {
      if l >= len(s) { return s }
      if l <= len(suffix) { return suffix[:min(l, len(suffix))] }
      return s[:l-len(suffix)-1] + "-" + suffix
  }
  \<close>
\<close>

definition truncate :: "int \<Rightarrow> string \<Rightarrow> string \<Rightarrow> panic + string" where
  "truncate l s suffix =
     (if l \<ge> int (length s) then Inr s
      else if l \<le> int (length suffix)
        then slice_to suffix (min_int l (int (length suffix)))
      else (case slice_to s (l - int (length suffix) - 1) of
              Inl e \<Rightarrow> Inl e
            | Inr p \<Rightarrow> Inr (p @ ''-'' @ suffix)))"

text \<open>
  The loop of \<open>hashname\<close>:
  \<^verbatim>\<open>
  for n := len(s) - 1; n >= 0; n-- {
      s[n] = truncate(l/len(s), s[n], hash[:shorthash])
      r = strings.Join(s, "/")
      if l > len(r) { return r }
  }
  \<close>
  The counter \<open>Suc n\<close> stands for the loop index \<open>n\<close>; \<open>Inr None\<close> is the loop
  running to its end without returning.
\<close>

definition shorthash :: int where
  "shorthash = 6"

fun hashname_loop :: "int \<Rightarrow> string \<Rightarrow> nat \<Rightarrow> string list \<Rightarrow> panic + string option" where
  "hashname_loop l hash 0 s = Inr None"
| "hashname_loop l hash (Suc n) s =
     (case slice_to hash shorthash of
        Inl e \<Rightarrow> Inl e
      | Inr sh \<Rightarrow>
         (case truncate (go_div l (int (length s))) (s ! n) sh of
            Inl e \<Rightarrow> Inl e
          | Inr t \<Rightarrow>
             (let s' = s[n := t]; r = join s'
              in if l > int (length r) then Inr (Some r)
                 else hashname_loop l hash n s')))"

text \<open>
  \<^verbatim>\<open>
  func hashname(l int, s ...string) string {
      r := strings.Join(s, "/")
      if l > len(r) { return r }
      hash := fmt.Sprintf("%x", sha256.Sum256([]byte(r)))
      for ... (above)
      return hash[:min(len(hash), l)]
  }
  \<close>
  \<open>crypto/sha256\<close> is the Go standard library's; the hexadecimal digest is the
  parameter \<open>sha256hex\<close>.
\<close>

definition hashname :: "(string \<Rightarrow> string) \<Rightarrow> int \<Rightarrow> string list \<Rightarrow> panic + string" where
  "hashname sha256hex l s =
     (let r = join s in
      if l > int (length r) then Inr r
      else
        (let hash = sha256hex r in
         case hashname_loop l hash (length s) s of
           Inl e \<Rightarrow> Inl e
         | Inr (Some r') \<Rightarrow> Inr r'
         | Inr None \<Rightarrow> slice_to hash (min_int (int (length hash)) l)))"

text \<open>
  \<^verbatim>\<open>
  func servicename(meta metav1.ObjectMeta, portname string) string {
      sn := []string{meta.Namespace, meta.Name, ""}[:2]
      if portname != "" { sn = append(sn, portname) }
      return strings.Join(sn, "/")
  }
  \<close>
  Only the namespace and the name of the object's metadata are read.
\<close>

definition servicename :: "string \<Rightarrow> string \<Rightarrow> string \<Rightarrow> string" where
  "servicename meta_Namespace meta_Name portname =
     (let sn = take 2 [meta_Namespace, meta_Name, ''''];
          sn = (if portname \<noteq> '''' then sn @ [portname] else sn)
      in join sn)"

subsection \<open>hashname as a search over truncations\<close>

text \<open>
  What the loop of \<open>hashname\<close> computes, written without the loop and proved equal to
  the code (\<open>hashname_refines\<close>), with the comparisons of the code: join the parts with
  "/"; if the result is strictly shorter than \<open>L\<close>, return it. Otherwise hash the joined
  string and cut parts to \<open>L div k\<close> characters, from the last part toward the first,
  until the joined string is strictly shorter than \<open>L\<close>; a part that is cut ends in "-"
  and the first six characters of the hash (or is a prefix of those six characters when
  \<open>L div k\<close> leaves no room for more). When every part is cut and the result is still
  not shorter than \<open>L\<close>, return the first \<open>L\<close> characters of the hash.
\<close>

definition truncate_part :: "nat \<Rightarrow> string \<Rightarrow> string \<Rightarrow> string" where
  "truncate_part w h6 p =
     (if length p \<le> w then p
      else if w \<le> length h6 then take w h6
      else take (w - length h6 - 1) p @ ''-'' @ h6)"

text \<open>The parts with those at index \<open>i\<close> and later cut.\<close>

definition truncated_from :: "nat \<Rightarrow> string \<Rightarrow> nat \<Rightarrow> string list \<Rightarrow> string list" where
  "truncated_from w h6 i parts = take i parts @ map (truncate_part w h6) (drop i parts)"

definition hashname_search :: "(string \<Rightarrow> string) \<Rightarrow> nat \<Rightarrow> string list \<Rightarrow> string" where
  "hashname_search sha256hex L parts =
     (let r = join parts; h = sha256hex r; w = L div length parts in
      if length r < L then r
      else
        (case find (\<lambda>i. length (join (truncated_from w (take 6 h) i parts)) < L)
                (rev [0..<length parts]) of
           Some i \<Rightarrow> join (truncated_from w (take 6 h) i parts)
         | None \<Rightarrow> take L h))"

text \<open>
  The SHA-256 digests, in hexadecimal, of the strings the examples below hash
  (\<open>alpha\<close>, and the 68 character host of the test "vhost name exceeds 60 chars").
  Any other string is sent to a placeholder of 64 characters; no example returns any
  part of it.
\<close>

definition long_host :: string where
  "long_host = ''my-very-very-long-service-host-name.subdomain.boring-dept.my.company''"

definition sha256hex_known :: "string \<Rightarrow> string" where
  "sha256hex_known r =
     (if r = ''alpha''
        then ''8ed3f6ad685b959ead7022518e1af76cd816f8e8ec7ccdda1ed4018e8f2223f8''
      else if r = long_host
        then ''d31bb322ca62bb395acad00b3cbf45a3aa1010ca28dca7cddb4f7db786faf314''
      else replicate 64 (CHR ''0''))"

section \<open>listener.go\<close>

definition ENVOY_HTTP_LISTENER :: string where
  "ENVOY_HTTP_LISTENER = ''ingress_http''"

definition ENVOY_HTTPS_LISTENER :: string where
  "ENVOY_HTTPS_LISTENER = ''ingress_https''"

definition DEFAULT_HTTP_ACCESS_LOG :: string where
  "DEFAULT_HTTP_ACCESS_LOG = ''/dev/stdout''"

definition DEFAULT_HTTP_LISTENER_ADDRESS :: string where
  "DEFAULT_HTTP_LISTENER_ADDRESS = ''0.0.0.0''"

definition DEFAULT_HTTP_LISTENER_PORT :: int where
  "DEFAULT_HTTP_LISTENER_PORT = 8080"

definition DEFAULT_HTTPS_ACCESS_LOG :: string where
  "DEFAULT_HTTPS_ACCESS_LOG = ''/dev/stdout''"

definition DEFAULT_HTTPS_LISTENER_ADDRESS :: string where
  "DEFAULT_HTTPS_LISTENER_ADDRESS = DEFAULT_HTTP_LISTENER_ADDRESS"

definition DEFAULT_HTTPS_LISTENER_PORT :: int where
  "DEFAULT_HTTPS_LISTENER_PORT = 8443"

definition httpFilter :: string where
  "httpFilter = ''envoy.http_connection_manager''"

text \<open>\<open>uint32(n)\<close> of an \<open>int\<close>: the value modulo \<open>2^32\<close>.\<close>

definition uint32 :: "int \<Rightarrow> int" where
  "uint32 n = n mod 2 ^ 32"

definition httpAddress :: "ListenerCache \<Rightarrow> string" where
  "httpAddress lc = (if HTTPAddress lc \<noteq> '''' then HTTPAddress lc
                     else DEFAULT_HTTP_LISTENER_ADDRESS)"

definition httpPort :: "ListenerCache \<Rightarrow> int" where
  "httpPort lc = (if HTTPPort lc \<noteq> 0 then uint32 (HTTPPort lc)
                  else DEFAULT_HTTP_LISTENER_PORT)"

definition httpAccessLog :: "ListenerCache \<Rightarrow> string" where
  "httpAccessLog lc = (if HTTPAccessLog lc \<noteq> '''' then HTTPAccessLog lc
                       else DEFAULT_HTTP_ACCESS_LOG)"

definition httpsAddress :: "ListenerCache \<Rightarrow> string" where
  "httpsAddress lc = (if HTTPSAddress lc \<noteq> '''' then HTTPSAddress lc
                      else DEFAULT_HTTPS_LISTENER_ADDRESS)"

definition httpsPort :: "ListenerCache \<Rightarrow> int" where
  "httpsPort lc = (if HTTPSPort lc \<noteq> 0 then uint32 (HTTPSPort lc)
                   else DEFAULT_HTTPS_LISTENER_PORT)"

definition httpsAccessLog :: "ListenerCache \<Rightarrow> string" where
  "httpsAccessLog lc = (if HTTPSAccessLog lc \<noteq> '''' then HTTPSAccessLog lc
                        else DEFAULT_HTTPS_ACCESS_LOG)"

definition socketaddress :: "string \<Rightarrow> int \<Rightarrow> Address" where
  "socketaddress address port = \<lparr>sa_Address = address, PortValue = port\<rparr>"

definition httpfilter :: "string \<Rightarrow> string \<Rightarrow> Filter" where
  "httpfilter routename accessLogPath =
     \<lparr>filter_Name = httpFilter, route_config_name = routename,
      access_log_path = accessLogPath\<rparr>"

text \<open>
  \<^verbatim>\<open>
  func filterchain(useproxy bool, filters ...listener.Filter) listener.FilterChain {
      fc := listener.FilterChain{Filters: filters}
      if useproxy { fc.UseProxyProto = &types.BoolValue{Value: true} }
      return fc
  }
  \<close>
\<close>

definition filterchain :: "bool \<Rightarrow> Filter list \<Rightarrow> FilterChain" where
  "filterchain useproxy filters =
     (let fc = \<lparr>SniDomains = None, TlsContext = None, Filters = filters,
                 fc_UseProxyProto = None\<rparr>
      in if useproxy then fc\<lparr>fc_UseProxyProto := Some True\<rparr> else fc)"

text \<open>
  \<open>tlscontext(secret, tlsMinProtoVersion, alpnprotos...)\<close>: the certificate and the key
  are the secret's entries, read with \<open>secret.Data[...]\<close>.
\<close>

definition tlscontext :: "Secret \<Rightarrow> TlsProtocol \<Rightarrow> string list \<Rightarrow> DownstreamTlsContext" where
  "tlscontext secret tlsMinProtoVersion alpnprotos =
     \<lparr>TlsMinimumProtocolVersion = tlsMinProtoVersion,
      CertificateChain = Data secret TLSCertKey,
      PrivateKey = Data secret TLSPrivateKeyKey,
      AlpnProtocols = alpnprotos\<rparr>"

text \<open>
  \<^verbatim>\<open>
  func validTLSIngress(i *v1beta1.Ingress) bool {
      if len(i.Spec.TLS) == 0 { return false }
      return true
  }
  \<close>
\<close>

definition validTLSIngress :: "Ingress \<Rightarrow> bool" where
  "validTLSIngress i = (if length (Spec_TLS i) = 0 then False else True)"

text \<open>
  Modelled from the spec: \<open>httpAllowed\<close>, which \<open>recomputeListener0\<close> calls, is missing.
  "allow-http=false: Exclude host from HTTP listener"; the annotation's key is the one
  the test "tls, no http" sets.
\<close>

definition httpAllowed :: "Ingress \<Rightarrow> bool" where
  "httpAllowed i = (annotation i ''kubernetes.io/ingress.allow-http'' \<noteq> ''false'')"

text \<open>
  \<open>recomputeListener0\<close>: the listener \<open>ingress_http\<close> to add, or its name to remove.
  The loop counts the ingresses that allow HTTP; the order of the iteration does not
  matter to a count.
\<close>

definition recomputeListener0 ::
  "ListenerCache \<Rightarrow> (metadata \<times> Ingress) list \<Rightarrow> Listener list \<times> string list" where
  "recomputeListener0 lc ings =
     (let l = \<lparr>l_Name = ENVOY_HTTP_LISTENER,
                l_Address = socketaddress (httpAddress lc) (httpPort lc),
                FilterChains = []\<rparr>;
          valid = length (filter (\<lambda>(m, i). httpAllowed i) ings);
          l = (if valid > 0
               then l\<lparr>FilterChains :=
                      [filterchain (UseProxyProto lc)
                         [httpfilter ENVOY_HTTP_LISTENER (httpAccessLog lc)]]\<rparr>
               else l)
      in if length (FilterChains l) = 0 then ([], [l_Name l]) else ([l], []))"

text \<open>
  \<open>recomputeListenerIngressRoute0\<close>: as above from the IngressRoutes; the access log is
  \<open>lc.httpsAccessLog()\<close> in the source.
\<close>

definition recomputeListenerIngressRoute0 ::
  "ListenerCache \<Rightarrow> (metadata \<times> IngressRoute) list \<Rightarrow> Listener list \<times> string list" where
  "recomputeListenerIngressRoute0 lc rts =
     (let l = \<lparr>l_Name = ENVOY_HTTP_LISTENER,
                l_Address = socketaddress (httpAddress lc) (httpPort lc),
                FilterChains = []\<rparr>;
          l = (if length rts > 0
               then l\<lparr>FilterChains :=
                      [filterchain (UseProxyProto lc)
                         [httpfilter ENVOY_HTTP_LISTENER (httpsAccessLog lc)]]\<rparr>
               else l)
      in if length (FilterChains l) = 0 then ([], [l_Name l]) else ([l], []))"

text \<open>
  \<^verbatim>\<open>
  switch i.ObjectMeta.Annotations["contour.heptio.com/tls-minimum-protocol-version"] {
  case "1.3": tlsMinProtoVer = auth.TlsParameters_TLSv1_3
  case "1.2": tlsMinProtoVer = auth.TlsParameters_TLSv1_2
  default:    tlsMinProtoVer = auth.TlsParameters_TLSv1_1
  }
  \<close>
\<close>

definition tlsMinProtoVer :: "Ingress \<Rightarrow> TlsProtocol" where
  "tlsMinProtoVer i =
     (let v = annotation i ''contour.heptio.com/tls-minimum-protocol-version''
      in if v = ''1.3'' then TLSv1_3 else if v = ''1.2'' then TLSv1_2 else TLSv1_1)"

text \<open>
  The inner loop of \<open>recomputeTLSListener0\<close>, over the TLS specs of one ingress; the last
  argument is \<open>l.FilterChains\<close> so far.
  \<^verbatim>\<open>
  for _, tls := range i.Spec.TLS {
      secret, ok := secrets[metadata{name: tls.SecretName, namespace: i.Namespace}]
      if !ok { continue }
      _, cert := secret.Data[v1.TLSCertKey]
      _, key := secret.Data[v1.TLSPrivateKeyKey]
      if !cert || !key { continue }
      ...
      fc := listener.FilterChain{
          FilterChainMatch: &listener.FilterChainMatch{SniDomains: tls.Hosts},
          TlsContext: tlscontext(secret, tlsMinProtoVer, "h2", "http/1.1"),
          Filters:    filters,
      }
      if lc.UseProxyProto { fc.UseProxyProto = &types.BoolValue{Value: true} }
      l.FilterChains = append(l.FilterChains, fc)
  }
  \<close>
\<close>

definition tls_filterchain ::
  "ListenerCache \<Rightarrow> Filter list \<Rightarrow> Ingress \<Rightarrow> IngressTLS \<Rightarrow> Secret \<Rightarrow> FilterChain" where
  "tls_filterchain lc filters i tls secret =
     (let fc = \<lparr>SniDomains = Some (Hosts tls),
                 TlsContext = Some (tlscontext secret (tlsMinProtoVer i) [''h2'', ''http/1.1'']),
                 Filters = filters,
                 fc_UseProxyProto = None\<rparr>
      in if UseProxyProto lc then fc\<lparr>fc_UseProxyProto := Some True\<rparr> else fc)"

fun tls_specs_loop ::
  "ListenerCache \<Rightarrow> (metadata \<rightharpoonup> Secret) \<Rightarrow> Filter list \<Rightarrow> Ingress \<Rightarrow> IngressTLS list
     \<Rightarrow> FilterChain list \<Rightarrow> FilterChain list" where
  "tls_specs_loop lc secs filters i [] fcs = fcs"
| "tls_specs_loop lc secs filters i (tls # rest) fcs =
     (case secs \<lparr>name = SecretName tls, namespace = ing_Namespace i\<rparr> of
        None \<Rightarrow> tls_specs_loop lc secs filters i rest fcs
      | Some secret \<Rightarrow>
          (let cert = (Data secret TLSCertKey \<noteq> None);
               key = (Data secret TLSPrivateKeyKey \<noteq> None)
           in if \<not> cert \<or> \<not> key then tls_specs_loop lc secs filters i rest fcs
              else tls_specs_loop lc secs filters i rest
                     (fcs @ [tls_filterchain lc filters i tls secret])))"

text \<open>The outer loop, \<open>for _, i := range ingresses\<close>.\<close>

fun tls_ingresses_loop ::
  "ListenerCache \<Rightarrow> (metadata \<rightharpoonup> Secret) \<Rightarrow> Filter list \<Rightarrow> (metadata \<times> Ingress) list
     \<Rightarrow> FilterChain list \<Rightarrow> FilterChain list" where
  "tls_ingresses_loop lc secs filters [] fcs = fcs"
| "tls_ingresses_loop lc secs filters ((m, i) # rest) fcs =
     (if \<not> validTLSIngress i then tls_ingresses_loop lc secs filters rest fcs
      else tls_ingresses_loop lc secs filters rest
             (tls_specs_loop lc secs filters i (Spec_TLS i) fcs))"

definition recomputeTLSListener0 ::
  "ListenerCache \<Rightarrow> (metadata \<times> Ingress) list \<Rightarrow> (metadata \<rightharpoonup> Secret)
     \<Rightarrow> Listener list \<times> string list" where
  "recomputeTLSListener0 lc ings secs =
     (let l = \<lparr>l_Name = ENVOY_HTTPS_LISTENER,
                l_Address = socketaddress (httpsAddress lc) (httpsPort lc),
                FilterChains = []\<rparr>;
          filters = [httpfilter ENVOY_HTTPS_LISTENER (httpsAccessLog lc)];
          l = l\<lparr>FilterChains := tls_ingresses_loop lc secs filters ings (FilterChains l)\<rparr>
      in if length (FilterChains l) = 0 then ([], [l_Name l]) else ([l], []))"

text \<open>
  Modelled from the spec: \<open>Add\<close> of the embedded \<open>listenerCache\<close> is missing. "Add
  replaces by name."
\<close>

definition lc_Add :: "Listener list \<Rightarrow> ListenerCache \<Rightarrow> ListenerCache" where
  "lc_Add ls lc = lc\<lparr>listenerCache := fold (\<lambda>l m. m(l_Name l \<mapsto> l)) ls (listenerCache lc)\<rparr>"

text \<open>
  Modelled from the spec: \<open>Remove\<close> of the embedded \<open>listenerCache\<close> is missing. "Remove
  silently tolerates unknown names."
\<close>

definition lc_Remove :: "string list \<Rightarrow> ListenerCache \<Rightarrow> ListenerCache" where
  "lc_Remove ns lc = lc\<lparr>listenerCache := fold (\<lambda>n m. m(n := None)) ns (listenerCache lc)\<rparr>"

text \<open>
  Modelled from the spec: \<open>Notify\<close> of the embedded \<open>Cond\<close> is missing. "Notify bumps
  the version."
\<close>

definition lc_Notify :: "ListenerCache \<Rightarrow> ListenerCache" where
  "lc_Notify lc = lc\<lparr>lc_Cond := Suc (lc_Cond lc)\<rparr>"

text \<open>
  \<^verbatim>\<open>
  func (lc *ListenerCache) recomputeListeners(ingresses, secrets) {
      add, remove := lc.recomputeListener0(ingresses)
      ssladd, sslremove := lc.recomputeTLSListener0(ingresses, secrets)
      add = append(add, ssladd...)
      remove = append(remove, sslremove...)
      lc.Add(add...)
      lc.Remove(remove...)
      if len(add) > 0 || len(remove) > 0 { lc.Notify() }
  }
  \<close>
\<close>

definition recomputeListeners ::
  "(metadata \<times> Ingress) list \<Rightarrow> (metadata \<rightharpoonup> Secret) \<Rightarrow> ListenerCache \<Rightarrow> ListenerCache" where
  "recomputeListeners ings secs lc =
     (case recomputeListener0 lc ings of (add, remove) \<Rightarrow>
      case recomputeTLSListener0 lc ings secs of (ssladd, sslremove) \<Rightarrow>
        (let add = add @ ssladd;
             remove = remove @ sslremove;
             lc = lc_Add add lc;
             lc = lc_Remove remove lc
         in if length add > 0 \<or> length remove > 0 then lc_Notify lc else lc))"

text \<open>
  \<open>recomputeListenersIngressRoute\<close>: the two lines that recompute \<open>ingress_https\<close> are
  commented out in the source.
\<close>

definition recomputeListenersIngressRoute ::
  "(metadata \<times> IngressRoute) list \<Rightarrow> (metadata \<rightharpoonup> Secret) \<Rightarrow> ListenerCache \<Rightarrow> ListenerCache" where
  "recomputeListenersIngressRoute rts secs lc =
     (case recomputeListenerIngressRoute0 lc rts of (add, remove) \<Rightarrow>
        (let lc = lc_Add add lc;
             lc = lc_Remove remove lc
         in if length add > 0 \<or> length remove > 0 then lc_Notify lc else lc))"

definition recomputeTLSListener ::
  "(metadata \<times> Ingress) list \<Rightarrow> (metadata \<rightharpoonup> Secret) \<Rightarrow> ListenerCache \<Rightarrow> ListenerCache" where
  "recomputeTLSListener ings secs lc =
     (case recomputeTLSListener0 lc ings secs of (ssladd, sslremove) \<Rightarrow>
        (let lc = lc_Add ssladd lc;
             lc = lc_Remove sslremove lc
         in if length ssladd > 0 \<or> length sslremove > 0 then lc_Notify lc else lc))"

subsection \<open>The filter chains of ingress\_https in the words of their description\<close>

text \<open>
  The secret a TLS spec of an ingress names, when it exists in the ingress's namespace
  and holds both the certificate and the private key entry.
\<close>

definition tls_secret :: "(metadata \<rightharpoonup> Secret) \<Rightarrow> Ingress \<Rightarrow> IngressTLS \<Rightarrow> Secret option" where
  "tls_secret secs i tls =
     (case secs \<lparr>name = SecretName tls, namespace = ing_Namespace i\<rparr> of
        None \<Rightarrow> None
      | Some secret \<Rightarrow>
          if Data secret TLSCertKey \<noteq> None \<and> Data secret TLSPrivateKeyKey \<noteq> None
          then Some secret else None)"

text \<open>
  One filter chain for each pair of an ingress and one of its TLS specs that has such a
  secret, in the order of the ingresses and, within an ingress, of its TLS specs.
\<close>

definition tls_filterchains ::
  "ListenerCache \<Rightarrow> (metadata \<rightharpoonup> Secret) \<Rightarrow> (metadata \<times> Ingress) list \<Rightarrow> FilterChain list" where
  "tls_filterchains lc secs ings =
     concat (map (\<lambda>(m, i).
        List.map_filter
          (\<lambda>tls. map_option
             (tls_filterchain lc [httpfilter ENVOY_HTTPS_LISTENER (httpsAccessLog lc)] i tls)
             (tls_secret secs i tls))
          (Spec_TLS i)) ings)"

definition https_listener :: "ListenerCache \<Rightarrow> FilterChain list \<Rightarrow> Listener" where
  "https_listener lc fcs =
     \<lparr>l_Name = ENVOY_HTTPS_LISTENER,
      l_Address = socketaddress (httpsAddress lc) (httpsPort lc),
      FilterChains = fcs\<rparr>"

section \<open>The parts of the translator that are not among the sources\<close>

subsection \<open>The object cache\<close>

text \<open>
  Modelled from the spec: the operations of \<open>translatorCache\<close> are missing. An entry
  of one of its maps (the index "by (kind, namespace, name)") is stored or replaced under
  its key.
\<close>

definition put_entry :: "metadata \<Rightarrow> 'a \<Rightarrow> (metadata \<times> 'a) list \<Rightarrow> (metadata \<times> 'a) list" where
  "put_entry m x es =
     (if m \<in> set (map fst es) then map (\<lambda>(k, y). if k = m then (k, x) else (k, y)) es
      else es @ [(m, x)])"

text \<open>
  Modelled from the spec: the operations of \<open>translatorCache\<close> are missing. An entry
  of one of its maps is deleted; a key that is not there is no error.
\<close>

definition delete_entry :: "metadata \<Rightarrow> (metadata \<times> 'a) list \<Rightarrow> (metadata \<times> 'a) list" where
  "delete_entry m es = filter (\<lambda>(k, y). k \<noteq> m) es"

text \<open>
  Modelled from the spec: the key of an Ingress in the object cache, its
  \<open>{namespace, name}\<close>, as the helper \<open>im\<close> of the tests builds it.
\<close>

definition ing_meta :: "Ingress \<Rightarrow> metadata" where
  "ing_meta i = \<lparr>name = ing_Name i, namespace = ing_Namespace i\<rparr>"

text \<open>
  Modelled from the spec: the key of an IngressRoute in the object cache, likewise.
\<close>

definition ir_meta :: "IngressRoute \<Rightarrow> metadata" where
  "ir_meta r = \<lparr>name = ir_Name r, namespace = ir_Namespace r\<rparr>"

text \<open>
  Modelled from the spec: "host to set of Ingresses routing to that host". The hosts an
  Ingress routes to are the default vhost \<open>*\<close> for a default backend, and each rule's
  host (\<open>*\<close> when the rule names none, as in \<open>addIngress\<close>).
\<close>

definition ing_hosts :: "Ingress \<Rightarrow> string list" where
  "ing_hosts i =
     (if Spec_Backend i \<noteq> None then [''*''] else [])
     @ map (\<lambda>r. if Host r = '''' then ''*'' else Host r) (Spec_Rules i)"

text \<open>
  Modelled from the spec: "host to set of IngressRoutes routing to that host". The host
  of an IngressRoute is its FQDN (\<open>*\<close> when it names none, as in \<open>addIngressRoute\<close>).
\<close>

definition ir_host :: "IngressRoute \<Rightarrow> string" where
  "ir_host r = (if Fqdn r = '''' then ''*'' else Fqdn r)"

text \<open>
  Modelled from the spec: \<open>translatorCache.OnDelete\<close> is missing. Input objects are
  "removed on OnDelete", from the index of objects and from every host index; a
  tombstone is unwrapped ("unwrap and recurse").
\<close>

fun cache_OnDelete :: "obj \<Rightarrow> translatorCache \<Rightarrow> translatorCache" where
  "cache_OnDelete (ObjService s) c =
     c\<lparr>services := (services c)(\<lparr>name = svc_Name s, namespace = svc_Namespace s\<rparr> := None)\<rparr>"
| "cache_OnDelete (ObjSecret s) c =
     c\<lparr>secrets := (secrets c)(\<lparr>name = sec_Name s, namespace = sec_Namespace s\<rparr> := None)\<rparr>"
| "cache_OnDelete (ObjIngress i) c =
     c\<lparr>ingresses := delete_entry (ing_meta i) (ingresses c),
       vhosts := (\<lambda>h. delete_entry (ing_meta i) (vhosts c h))\<rparr>"
| "cache_OnDelete (ObjIngressRoute r) c =
     c\<lparr>routes := delete_entry (ir_meta r) (routes c),
       vhostroutes := (\<lambda>h. delete_entry (ir_meta r) (vhostroutes c h))\<rparr>"
| "cache_OnDelete (DeletedFinalStateUnknown x) c = cache_OnDelete x c"
| "cache_OnDelete ObjUnknown c = c"

text \<open>
  Modelled from the spec: \<open>translatorCache.OnAdd\<close> is missing. The cache keeps "the most
  recent version of each object" and enters an Ingress or IngressRoute under the hosts
  it routes to.
\<close>

fun cache_OnAdd :: "obj \<Rightarrow> translatorCache \<Rightarrow> translatorCache" where
  "cache_OnAdd (ObjService s) c =
     c\<lparr>services := (services c)(\<lparr>name = svc_Name s, namespace = svc_Namespace s\<rparr> \<mapsto> s)\<rparr>"
| "cache_OnAdd (ObjSecret s) c =
     c\<lparr>secrets := (secrets c)(\<lparr>name = sec_Name s, namespace = sec_Namespace s\<rparr> \<mapsto> s)\<rparr>"
| "cache_OnAdd (ObjIngress i) c =
     c\<lparr>ingresses := put_entry (ing_meta i) i (ingresses c),
       vhosts := (\<lambda>h. if h \<in> set (ing_hosts i) then put_entry (ing_meta i) i (vhosts c h)
                       else vhosts c h)\<rparr>"
| "cache_OnAdd (ObjIngressRoute r) c =
     c\<lparr>routes := put_entry (ir_meta r) r (routes c),
       vhostroutes := (\<lambda>h. if h = ir_host r then put_entry (ir_meta r) r (vhostroutes c h)
                            else vhostroutes c h)\<rparr>"
| "cache_OnAdd (DeletedFinalStateUnknown x) c = c"
| "cache_OnAdd ObjUnknown c = c"

text \<open>
  Modelled from the spec: \<open>translatorCache.OnUpdate\<close> is missing. "Updates to an Ingress
  must remove the prior object from every host index it contributed to before inserting
  under its new hosts."
\<close>

definition cache_OnUpdate :: "obj \<Rightarrow> obj \<Rightarrow> translatorCache \<Rightarrow> translatorCache" where
  "cache_OnUpdate oldObj newObj c = cache_OnAdd newObj (cache_OnDelete oldObj c)"

subsection \<open>Clusters of a service\<close>

text \<open>\<open>strconv.Itoa\<close>: the decimal digits of an integer.\<close>

function itoa_nat :: "nat \<Rightarrow> string" where
  "itoa_nat n = (if n < 10 then [''0123456789'' ! n]
                 else itoa_nat (n div 10) @ [''0123456789'' ! (n mod 10)])"
  by pat_completeness auto
termination
  by (relation "measure id") auto

declare itoa_nat.simps [simp del]

definition itoa :: "int \<Rightarrow> string" where
  "itoa i = (if i < 0 then ''-'' @ itoa_nat (nat (- i)) else itoa_nat (nat i))"

text \<open>
  Modelled from the spec: the construction of a Cluster's name is missing. "Cluster:
  name = {namespace}/{serviceName}/{port-or-portname}."
\<close>

definition clustername :: "string \<Rightarrow> string \<Rightarrow> string \<Rightarrow> string" where
  "clustername ns n port = join [ns, n, port]"

text \<open>
  Modelled from the spec: \<open>ClusterCache.recomputeService\<close> is missing. "For each Service
  port, if it is named, two Clusters are emitted, one keyed by numeric port and one keyed
  by port name, both referencing the same endpoint assignment. Unnamed ports produce one
  Cluster keyed by numeric port with endpoint-name = {ns}/{name}." The endpoint
  discovery name is \<open>servicename\<close> of translator.go.
\<close>

definition port_clusters :: "Service \<Rightarrow> ServicePort \<Rightarrow> EdsCluster list" where
  "port_clusters svc p =
     (let config = servicename (svc_Namespace svc) (svc_Name svc) (sp_Name p) in
      (if sp_Name p \<noteq> ''''
       then [\<lparr>c_Name = clustername (svc_Namespace svc) (svc_Name svc) (sp_Name p),
               eds_ServiceName = config\<rparr>]
       else [])
      @ [\<lparr>c_Name = clustername (svc_Namespace svc) (svc_Name svc) (itoa (sp_Port p)),
            eds_ServiceName = config\<rparr>])"

text \<open>
  Modelled from the spec: the Clusters of a service, those of its ports in their order;
  none for no service.
\<close>

definition service_clusters :: "Service option \<Rightarrow> EdsCluster list" where
  "service_clusters s =
     (case s of
        None \<Rightarrow> []
      | Some svc \<Rightarrow> concat (map (port_clusters svc) (Ports svc)))"

text \<open>
  Modelled from the spec: \<open>Add\<close> of the cluster cache is missing. "Add replaces by
  name."
\<close>

definition cc_Add :: "EdsCluster list \<Rightarrow> ClusterCache \<Rightarrow> ClusterCache" where
  "cc_Add cs cc = cc\<lparr>clusterCache := fold (\<lambda>c m. m(c_Name c \<mapsto> c)) cs (clusterCache cc)\<rparr>"

text \<open>
  Modelled from the spec: \<open>Remove\<close> of the cluster cache is missing. "Remove silently
  tolerates unknown names."
\<close>

definition cc_Remove :: "string list \<Rightarrow> ClusterCache \<Rightarrow> ClusterCache" where
  "cc_Remove ns cc = cc\<lparr>clusterCache := fold (\<lambda>n m. m(n := None)) ns (clusterCache cc)\<rparr>"

text \<open>
  Modelled from the spec: \<open>Notify\<close> of the cluster cache is missing. "Notify bumps the
  version."
\<close>

definition cc_Notify :: "ClusterCache \<Rightarrow> ClusterCache" where
  "cc_Notify cc = cc\<lparr>cc_Cond := Suc (cc_Cond cc)\<rparr>"

text \<open>
  Modelled from the spec: \<open>ClusterCache.recomputeService(oldsvc, newsvc)\<close> is missing.
  "Recompute the set of Clusters belonging to this service"; "deletion produces a
  Cluster-cache remove for every previously emitted name": the Clusters of the new
  service are added, and the names the old service had and the new one has not are
  removed.
\<close>

definition recomputeService :: "Service option \<Rightarrow> Service option \<Rightarrow> ClusterCache \<Rightarrow> ClusterCache" where
  "recomputeService oldsvc newsvc cc =
     (let emitted = service_clusters newsvc;
          stale = filter (\<lambda>n. n \<notin> set (map c_Name emitted))
                    (map c_Name (service_clusters oldsvc))
      in cc_Notify (cc_Remove stale (cc_Add emitted cc)))"

subsection \<open>Virtual hosts\<close>

text \<open>
  virtualhost.go (\<open>recomputevhost\<close>, \<open>recomputevhostIngressRoute\<close>,
  \<open>validTLSSpecforVhost\<close> and their helpers) is missing; its tests are among the
  sources. The model follows "Per-host VirtualHost recomputation" of the spec and, where
  a test of the sources fixes the output, the test.
\<close>

text \<open>
  Modelled from the spec: the key of the annotation \<open>request-timeout\<close>, as
  \<open>TestRequestTimeout\<close> writes it.
\<close>

definition annotationRequestTimeout :: string where
  "annotationRequestTimeout = ''contour.heptio.com/request-timeout''"

text \<open>
  Modelled from the spec: the key of the annotation \<open>websocket-routes\<close>, as
  \<open>TestWebsocketRoutes\<close> writes it.
\<close>

definition annotationWebsocketRoutes :: string where
  "annotationWebsocketRoutes = ''contour.heptio.com/websocket-routes''"

text \<open>
  Modelled from the spec: the key of the annotation \<open>force-ssl-redirect\<close>, as
  \<open>TestSSLRedirectOverlay\<close> writes it.
\<close>

definition annotationForceSSLRedirect :: string where
  "annotationForceSSLRedirect = ''ingress.kubernetes.io/force-ssl-redirect''"

text \<open>
  Modelled from the spec: "an explicit zero timeout (proxy-side infinite)"; the test
  calls it \<open>durationInfinite = time.Duration(0)\<close>.
\<close>

definition infiniteTimeout :: int where
  "infiniteTimeout = 0"

text \<open>
  Modelled from the spec: the parsing of the annotation is missing. "Cluster-with-timeout
  when the ingress carries annotation request-timeout: parsed as a duration string. A
  literal infinity or any unparseable value produces an explicit zero timeout (proxy-side
  infinite). Absence leaves the timeout unset (proxy default)."
\<close>

definition request_timeout :: "stdlib \<Rightarrow> Ingress \<Rightarrow> int option" where
  "request_timeout lib i =
     (case ing_Annotations i annotationRequestTimeout of
        None \<Rightarrow> None
      | Some v \<Rightarrow>
          if v = ''infinity'' then Some infiniteTimeout
          else (case lib_ParseDuration lib v of
                  None \<Rightarrow> Some infiniteTimeout
                | Some d \<Rightarrow> Some d))"

text \<open>
  Modelled from the spec: "annotation websocket-routes listing paths", a
  "comma-separated" list; its elements.
\<close>

fun split_comma :: "string \<Rightarrow> string list" where
  "split_comma [] = [[]]"
| "split_comma (c # cs) =
     (if c = CHR '','' then [] # split_comma cs
      else (case split_comma cs of
              [] \<Rightarrow> [[c]]
            | w # ws \<Rightarrow> (c # w) # ws))"

text \<open>
  Modelled from the spec: the paths the annotation \<open>websocket-routes\<close> of an Ingress
  lists; none without the annotation.
\<close>

definition websocket_routes :: "Ingress \<Rightarrow> string list" where
  "websocket_routes i =
     (case ing_Annotations i annotationWebsocketRoutes of
        None \<Rightarrow> []
      | Some v \<Rightarrow> split_comma v)"

text \<open>
  Modelled from the spec: "Match is prefix when the path contains no regex
  metacharacter, else regex."
\<close>

definition pathToRouteMatch :: "stdlib \<Rightarrow> string \<Rightarrow> RouteMatch" where
  "pathToRouteMatch lib p = (if lib_containsRegexMeta lib p then Regex p else Prefix p)"

text \<open>
  Modelled from the spec: the cluster a backend of an Ingress names,
  \<open>{namespace}/{serviceName}/{port-or-portname}\<close>, in the namespace of the Ingress (the
  tests expect \<open>default/backend/80\<close> and \<open>default/paul/paul\<close>).
\<close>

definition ingressBackendToClusterName :: "Ingress \<Rightarrow> IngressBackend \<Rightarrow> string" where
  "ingressBackendToClusterName i b =
     clustername (ing_Namespace i) (ServiceName b)
       (case ServicePort b of FromInt n \<Rightarrow> itoa n | FromString s \<Rightarrow> s)"

text \<open>
  Modelled from the spec: the action of a route of an Ingress, to the backend's cluster,
  with the timeout of the annotation ("cluster-with-timeout") and the websocket flag
  when the path is listed ("only matching routes get the flag").
\<close>

definition clusteraction :: "stdlib \<Rightarrow> Ingress \<Rightarrow> string \<Rightarrow> IngressBackend \<Rightarrow> Action" where
  "clusteraction lib i p b =
     Route_Route \<lparr>cluster_specifier = Cluster (ingressBackendToClusterName i b),
                  Timeout = request_timeout lib i,
                  UseWebsocket = (if p \<in> set (websocket_routes i) then Some True else None)\<rparr>"

text \<open>
  Modelled from the spec: on the HTTP side, "301 HTTPS redirect when the ingress carries
  annotation force-ssl-redirect=true (applied per route, not per host)"; the cluster
  action otherwise. The tests "tls, force https" and \<open>TestSSLRedirectOverlay\<close> expect
  the cluster action on the HTTPS side.
\<close>

definition http_action :: "stdlib \<Rightarrow> Ingress \<Rightarrow> string \<Rightarrow> IngressBackend \<Rightarrow> Action" where
  "http_action lib i p b =
     (if annotation i annotationForceSSLRedirect = ''true'' then Route_Redirect True
      else clusteraction lib i p b)"

text \<open>
  Modelled from the spec: "collect every ingress rule currently contributing to this
  host". The routes an Ingress contributes to a host, in the order of its rules and
  paths: the default backend as the route \<open>/\<close> of the default vhost \<open>*\<close>, and the paths
  of the rules for this host (a rule without a host is for \<open>*\<close>).
\<close>

definition ingress_routes ::
  "(Ingress \<Rightarrow> string \<Rightarrow> IngressBackend \<Rightarrow> Action) \<Rightarrow> stdlib \<Rightarrow> string \<Rightarrow> Ingress \<Rightarrow> Route list" where
  "ingress_routes act lib vhost i =
     (case Spec_Backend i of
        None \<Rightarrow> []
      | Some b \<Rightarrow>
          if vhost = ''*''
          then [\<lparr>route_Match = Prefix ''/'', route_Action = act i ''/'' b\<rparr>] else [])
     @ concat (map (\<lambda>r.
         if (if Host r = '''' then ''*'' else Host r) = vhost
         then (case HTTP r of
                 None \<Rightarrow> []
               | Some ps \<Rightarrow>
                   map (\<lambda>p. \<lparr>route_Match = pathToRouteMatch lib (Path p),
                              route_Action = act i (Path p) (Backend p)\<rparr>) ps)
         else []) (Spec_Rules i))"

text \<open>
  Modelled from the spec: the length of a match, by which routes are ordered ("longest
  match first").
\<close>

fun match_length :: "RouteMatch \<Rightarrow> nat" where
  "match_length (Prefix p) = length p"
| "match_length (Regex p) = length p"

text \<open>
  Modelled from the spec: "Sort routes: longest match first; stable ordering for
  equal-length matches."
\<close>

definition longestRouteFirst :: "Route list \<Rightarrow> Route list" where
  "longestRouteFirst rs = sort_key (\<lambda>r. - int (match_length (route_Match r))) rs"

text \<open>
  Modelled from the spec: the name of a host's VirtualHost. "Name = host, except: if
  len(host) > 60, name = hashname(60, host)." A digest of 64 characters cannot make
  \<open>hashname\<close> panic; the model keeps the host if it does.
\<close>

definition virtualhost_name :: "stdlib \<Rightarrow> string \<Rightarrow> string" where
  "virtualhost_name lib host =
     (if length host > 60
      then (case hashname (lib_sha256hex lib) 60 [host] of Inr n \<Rightarrow> n | Inl e \<Rightarrow> host)
      else host)"

text \<open>
  Modelled from the spec: the VirtualHost of a host. "If the host is unspecified in any
  rule, the host is * and domains are [*]. Else for HTTP: domains = [host, {host}:80];
  for HTTPS: [host, {host}:443]."
\<close>

definition virtualhost :: "stdlib \<Rightarrow> string \<Rightarrow> int \<Rightarrow> Route list \<Rightarrow> VirtualHost" where
  "virtualhost lib host port rs =
     \<lparr>vh_Name = virtualhost_name lib host,
      Domains = (if host = ''*'' then [''*''] else [host, host @ '':'' @ itoa port]),
      vh_Routes = rs\<rparr>"

text \<open>
  Modelled from the spec: \<open>validTLSSpecforVhost(vhost, ingress)\<close> is missing ("a TLS
  spec naming this host"). The table of \<open>TestValidTLSSpecforVhost\<close> fixes it: true for a TLS spec that names the vhost and a secret ("tls enabled"); false
  without a TLS spec ("default vhost"), for another host ("wrong hostname") and for a
  spec without a secret name ("missing secret spec"). It reads the ingress only: the
  test passes no secrets.
\<close>

definition validTLSSpecforVhost :: "string \<Rightarrow> Ingress \<Rightarrow> bool" where
  "validTLSSpecforVhost vhost i =
     list_ex (\<lambda>tls. SecretName tls \<noteq> '''' \<and> vhost \<in> set (Hosts tls)) (Spec_TLS i)"

text \<open>
  Modelled from the spec: the routes of the HTTPS VirtualHost of a host, those of the
  ingresses that have a valid TLS spec for it, sorted. \<open>TestSSLRedirectOverlay\<close> expects
  only the route of the ingress with the TLS spec there, and it and the test "tls" expect
  the VirtualHost without any Secret having been added; the spec's "and a matching
  Secret that contains both a certificate and a private key" is therefore not modelled.
\<close>

definition https_routes :: "stdlib \<Rightarrow> string \<Rightarrow> (metadata \<times> Ingress) list \<Rightarrow> Route list" where
  "https_routes lib vhost ings =
     longestRouteFirst
       (concat (map (\<lambda>(m, i). if validTLSSpecforVhost vhost i
                               then ingress_routes (clusteraction lib) lib vhost i else [])
                  ings))"

text \<open>
  Modelled from the spec: the routes of the HTTP VirtualHost of a host, those of all its
  ingresses, sorted; "include in HTTP configuration unless any contributing Ingress sets
  allow-http=false".
\<close>

definition http_routes :: "stdlib \<Rightarrow> string \<Rightarrow> (metadata \<times> Ingress) list \<Rightarrow> Route list" where
  "http_routes lib vhost ings =
     (if list_ex (\<lambda>(m, i). \<not> httpAllowed i) ings then []
      else longestRouteFirst
             (concat (map (\<lambda>(m, i). ingress_routes (http_action lib) lib vhost i) ings)))"

text \<open>
  Modelled from the spec: a VirtualHost is stored under its name, replacing the one
  there; without routes it is removed ("removal of the last contributing input removes
  the derived entity").
\<close>

definition vh_store ::
  "VirtualHost \<Rightarrow> (string \<rightharpoonup> VirtualHost) \<Rightarrow> (string \<rightharpoonup> VirtualHost)" where
  "vh_store vh m = (if vh_Routes vh = [] then m(vh_Name vh := None) else m(vh_Name vh \<mapsto> vh))"

text \<open>
  Modelled from the spec: \<open>recomputevhost(vhost, ingresses)\<close> is missing. It recomputes
  the host's VirtualHost in the HTTPS and in the HTTP route configuration.
\<close>

definition recomputevhost ::
  "stdlib \<Rightarrow> string \<Rightarrow> (metadata \<times> Ingress) list \<Rightarrow> VirtualHostCache \<Rightarrow> VirtualHostCache" where
  "recomputevhost lib vhost ings vc =
     vc\<lparr>vhc_HTTPS := vh_store (virtualhost lib vhost 443 (https_routes lib vhost ings))
                        (vhc_HTTPS vc),
        vhc_HTTP := vh_store (virtualhost lib vhost 80 (http_routes lib vhost ings))
                       (vhc_HTTP vc)\<rparr>"

text \<open>
  Modelled from the spec: the sum of the weights that are given.
\<close>

definition specified_sum :: "int option list \<Rightarrow> int" where
  "specified_sum ws = sum_list (map (\<lambda>w. case w of None \<Rightarrow> 0 | Some x \<Rightarrow> x) ws)"

text \<open>
  Modelled from the spec: the computation of the weights of the backends of a route of
  an IngressRoute is missing. "If all backends specify a
  weight, pass them through verbatim. If some specify weights and others do not, the
  unspecified share the remainder of 100 minus the sum of specified weights, split
  evenly. If none specify weights, assign 100 evenly, rounded down with any remainder
  going to the earliest backends."
\<close>

definition route_weights :: "int option list \<Rightarrow> int list" where
  "route_weights ws =
     (let n = int (length ws);
          unset = int (length (filter (\<lambda>w. w = None) ws))
      in if unset = 0 then map the ws
         else if unset = n
           then map (\<lambda>k. 100 div n + (if int k < 100 mod n then 1 else 0)) [0..<length ws]
         else map (\<lambda>w. case w of
                          None \<Rightarrow> (100 - specified_sum ws) div unset
                        | Some x \<Rightarrow> x) ws)"

text \<open>
  Modelled from the spec: the cluster a backend of an IngressRoute names,
  \<open>{namespace}/{serviceName}/{port}\<close> (the tests expect \<open>default/backend/80\<close>).
\<close>

definition ingressRouteBackendToClusterName :: "IngressRoute \<Rightarrow> RouteService \<Rightarrow> string" where
  "ingressRouteBackendToClusterName r s =
     clustername (ir_Namespace r) (rs_Name s) (itoa (rs_Port s))"

text \<open>
  Modelled from the spec: the action of a route of an IngressRoute. The spec has "weighted-cluster for
  IngressRoute with multiple backends" and "plain route-to-cluster for a single
  backend"; every case of \<open>TestVirtualHostCacheRecomputevhostIngressRoute\<close> with one
  backend expects a weighted cluster of that one backend with weight 100, so the model
  emits weighted clusters for any number of backends.
\<close>

definition ingressroute_action :: "IngressRoute \<Rightarrow> RouteService list \<Rightarrow> Action" where
  "ingressroute_action r svcs =
     Route_Route \<lparr>cluster_specifier =
                    WeightedClusters
                      (zip (map (ingressRouteBackendToClusterName r) svcs)
                           (route_weights (map rs_Weight svcs))),
                  Timeout = None, UseWebsocket = None\<rparr>"

text \<open>
  Modelled from the spec: the routes an IngressRoute contributes to a host, those of
  its \<open>Routes\<close> when the host is its own.
\<close>

definition ingressroute_routes :: "stdlib \<Rightarrow> string \<Rightarrow> IngressRoute \<Rightarrow> Route list" where
  "ingressroute_routes lib vhost r =
     (if ir_host r = vhost
      then map (\<lambda>rt. \<lparr>route_Match = pathToRouteMatch lib (Match rt),
                      route_Action = ingressroute_action r (Services rt)\<rparr>) (Routes r)
      else [])"

text \<open>
  Modelled from the spec: \<open>recomputevhostIngressRoute(vhost, routes)\<close> is missing. It
  recomputes the HTTP VirtualHost of the host from its
  IngressRoutes. The HTTPS VirtualHosts are not written: the tests expect none, and the
  spec notes that TLS for IngressRoute "is only partially implemented".
\<close>

definition recomputevhostIngressRoute ::
  "stdlib \<Rightarrow> string \<Rightarrow> (metadata \<times> IngressRoute) list \<Rightarrow> VirtualHostCache \<Rightarrow> VirtualHostCache" where
  "recomputevhostIngressRoute lib vhost rts vc =
     vc\<lparr>vhc_HTTP :=
          vh_store (virtualhost lib vhost 80
                      (longestRouteFirst
                         (concat (map (\<lambda>(m, r). ingressroute_routes lib vhost r) rts))))
            (vhc_HTTP vc)\<rparr>"

text \<open>
  Modelled from the spec: \<open>VirtualHostCache.Notify\<close> is missing. "Notify bumps the
  version."
\<close>

definition vhc_Notify :: "VirtualHostCache \<Rightarrow> VirtualHostCache" where
  "vhc_Notify vc = vc\<lparr>vhc_Cond := Suc (vhc_Cond vc)\<rparr>"

section \<open>translator.go: the event handlers\<close>

definition DEFAULT_INGRESS_CLASS :: string where
  "DEFAULT_INGRESS_CLASS = ''contour''"

definition ingressClass :: "Translator \<Rightarrow> string" where
  "ingressClass t = (if IngressClass t \<noteq> '''' then IngressClass t else DEFAULT_INGRESS_CLASS)"

text \<open>\<open>t.Errorf(...)\<close>: a message is logged.\<close>

definition Errorf :: "string \<Rightarrow> Translator \<Rightarrow> Translator" where
  "Errorf msg t = t\<lparr>FieldLogger := FieldLogger t @ [msg]\<rparr>"

text \<open>The calls on the embedded caches, as updates of the translator.\<close>

definition t_recomputeService :: "Service option \<Rightarrow> Service option \<Rightarrow> Translator \<Rightarrow> Translator" where
  "t_recomputeService oldsvc newsvc t =
     t\<lparr>t_ClusterCache := recomputeService oldsvc newsvc (t_ClusterCache t)\<rparr>"

definition t_recomputevhost ::
  "stdlib \<Rightarrow> string \<Rightarrow> (metadata \<times> Ingress) list \<Rightarrow> Translator \<Rightarrow> Translator" where
  "t_recomputevhost lib vhost ings t =
     t\<lparr>t_VirtualHostCache := recomputevhost lib vhost ings (t_VirtualHostCache t)\<rparr>"

definition t_recomputevhostIngressRoute ::
  "stdlib \<Rightarrow> string \<Rightarrow> (metadata \<times> IngressRoute) list \<Rightarrow> Translator \<Rightarrow> Translator" where
  "t_recomputevhostIngressRoute lib vhost rts t =
     t\<lparr>t_VirtualHostCache := recomputevhostIngressRoute lib vhost rts (t_VirtualHostCache t)\<rparr>"

definition t_VirtualHostCache_Notify :: "Translator \<Rightarrow> Translator" where
  "t_VirtualHostCache_Notify t = t\<lparr>t_VirtualHostCache := vhc_Notify (t_VirtualHostCache t)\<rparr>"

definition addService :: "Service \<Rightarrow> Translator \<Rightarrow> Translator" where
  "addService svc t = t_recomputeService None (Some svc) t"

definition updateService :: "Service \<Rightarrow> Service \<Rightarrow> Translator \<Rightarrow> Translator" where
  "updateService oldsvc newsvc t = t_recomputeService (Some oldsvc) (Some newsvc) t"

definition removeService :: "Service \<Rightarrow> Translator \<Rightarrow> Translator" where
  "removeService svc t = t_recomputeService (Some svc) None t"

text \<open>
  \<^verbatim>\<open>
  func (t *Translator) addIngress(i *v1beta1.Ingress) {
      class, ok := i.Annotations["kubernetes.io/ingress.class"]
      if ok && class != t.ingressClass() {
          return
      }
      t.recomputeListeners(t.cache.ingresses, t.cache.secrets)
      if i.Spec.Backend != nil {
          t.recomputevhost("*", t.cache.vhosts["*"])
      }
      for _, rule := range i.Spec.Rules {
          host := rule.Host
          if host == "" { host = "*" }
          t.recomputevhost(host, t.cache.vhosts[host])
      }
  }
  \<close>
\<close>

definition ignored_class :: "(string \<rightharpoonup> string) \<Rightarrow> Translator \<Rightarrow> bool" where
  "ignored_class annotations t =
     (case annotations ''kubernetes.io/ingress.class'' of
        None \<Rightarrow> False
      | Some c \<Rightarrow> c \<noteq> ingressClass t)"

definition t_recomputeListeners :: "Translator \<Rightarrow> Translator" where
  "t_recomputeListeners t =
     t\<lparr>t_ListenerCache :=
          recomputeListeners (ingresses (cache t)) (secrets (cache t)) (t_ListenerCache t)\<rparr>"

definition addIngress :: "stdlib \<Rightarrow> Ingress \<Rightarrow> Translator \<Rightarrow> Translator" where
  "addIngress lib i t =
     (if ignored_class (ing_Annotations i) t then t
      else
        (let t = t_recomputeListeners t;
             t = (if Spec_Backend i \<noteq> None
                  then t_recomputevhost lib ''*'' (vhosts (cache t) ''*'') t else t)
         in fold (\<lambda>rule t.
                    (let host = (if Host rule = '''' then ''*'' else Host rule)
                     in t_recomputevhost lib host (vhosts (cache t) host) t))
              (Spec_Rules i) t))"

text \<open>
  \<open>removeIngress\<close>: as \<open>addIngress\<close>, except that the default vhost is recomputed from
  no ingresses (\<open>t.recomputevhost("*", nil)\<close>) and that the loop calls
  \<open>t.recomputevhost(rule.Host, t.cache.vhosts[host])\<close>, with the rule's own host.
\<close>

definition removeIngress :: "stdlib \<Rightarrow> Ingress \<Rightarrow> Translator \<Rightarrow> Translator" where
  "removeIngress lib i t =
     (if ignored_class (ing_Annotations i) t then t
      else
        (let t = t_recomputeListeners t;
             t = (if Spec_Backend i \<noteq> None then t_recomputevhost lib ''*'' [] t else t)
         in fold (\<lambda>rule t.
                    (let host = (if Host rule = '''' then ''*'' else Host rule)
                     in t_recomputevhost lib (Host rule) (vhosts (cache t) host) t))
              (Spec_Rules i) t))"

definition updateIngress :: "stdlib \<Rightarrow> Ingress \<Rightarrow> Ingress \<Rightarrow> Translator \<Rightarrow> Translator" where
  "updateIngress lib oldIng newIng t = addIngress lib newIng (removeIngress lib oldIng t)"

text \<open>
  \<open>addSecret\<close> and \<open>removeSecret\<close>:
  \<open>t.recomputeTLSListener(t.cache.ingresses, t.cache.secrets)\<close>.
\<close>

definition addSecret :: "Secret \<Rightarrow> Translator \<Rightarrow> Translator" where
  "addSecret s t =
     t\<lparr>t_ListenerCache :=
          recomputeTLSListener (ingresses (cache t)) (secrets (cache t)) (t_ListenerCache t)\<rparr>"

definition removeSecret :: "Secret \<Rightarrow> Translator \<Rightarrow> Translator" where
  "removeSecret s t =
     t\<lparr>t_ListenerCache :=
          recomputeTLSListener (ingresses (cache t)) (secrets (cache t)) (t_ListenerCache t)\<rparr>"

text \<open>
  \<^verbatim>\<open>
  func (t *Translator) addIngressRoute(r *ingressroutev1.IngressRoute) {
      t.recomputeListenersIngressRoute(t.cache.routes, t.cache.secrets)
      defer t.VirtualHostCache.Notify()
      host := r.Spec.VirtualHost.Fqdn
      if host == "" { host = "*" }
      t.recomputevhostIngressRoute(host, t.cache.vhostroutes[host])
  }
  \<close>
  \<open>removeIngressRoute\<close> has the same body (its \<open>defer\<close> comes first). Neither reads the
  ingress class.
\<close>

definition addIngressRoute :: "stdlib \<Rightarrow> IngressRoute \<Rightarrow> Translator \<Rightarrow> Translator" where
  "addIngressRoute lib r t =
     (let t = t\<lparr>t_ListenerCache :=
                  recomputeListenersIngressRoute (routes (cache t)) (secrets (cache t))
                    (t_ListenerCache t)\<rparr>;
          host = (if Fqdn r = '''' then ''*'' else Fqdn r);
          t = t_recomputevhostIngressRoute lib host (vhostroutes (cache t) host) t
      in t_VirtualHostCache_Notify t)"

definition removeIngressRoute :: "stdlib \<Rightarrow> IngressRoute \<Rightarrow> Translator \<Rightarrow> Translator" where
  "removeIngressRoute lib r t =
     (let t = t\<lparr>t_ListenerCache :=
                  recomputeListenersIngressRoute (routes (cache t)) (secrets (cache t))
                    (t_ListenerCache t)\<rparr>;
          host = (if Fqdn r = '''' then ''*'' else Fqdn r);
          t = t_recomputevhostIngressRoute lib host (vhostroutes (cache t) host) t
      in t_VirtualHostCache_Notify t)"

definition updateIngressRoute ::
  "stdlib \<Rightarrow> IngressRoute \<Rightarrow> IngressRoute \<Rightarrow> Translator \<Rightarrow> Translator" where
  "updateIngressRoute lib oldIng newIng t =
     addIngressRoute lib newIng (removeIngressRoute lib oldIng t)"

text \<open>
  \<^verbatim>\<open>
  func (t *Translator) OnAdd(obj interface{}) {
      t.cache.OnAdd(obj)
      switch obj := obj.(type) {
      case *v1.Service:                  t.addService(obj)
      case *v1beta1.Ingress:             t.addIngress(obj); t.VirtualHostCache.Notify()
      case *v1.Secret:                   t.addSecret(obj)
      case *ingressroutev1.IngressRoute: t.addIngressRoute(obj)
      default:                           t.Errorf("OnAdd unexpected type %T: %#v", obj, obj)
      }
  }
  \<close>
\<close>

definition OnAdd :: "stdlib \<Rightarrow> obj \<Rightarrow> Translator \<Rightarrow> Translator" where
  "OnAdd lib x t =
     (let t = t\<lparr>cache := cache_OnAdd x (cache t)\<rparr> in
      case x of
        ObjService s \<Rightarrow> addService s t
      | ObjIngress i \<Rightarrow> t_VirtualHostCache_Notify (addIngress lib i t)
      | ObjSecret s \<Rightarrow> addSecret s t
      | ObjIngressRoute r \<Rightarrow> addIngressRoute lib r t
      | _ \<Rightarrow> Errorf ''OnAdd unexpected type'' t)"

text \<open>
  \<open>OnUpdate(oldObj, newObj)\<close>: the switch is on the new object; an old object of another
  type is logged and nothing else is done. A Secret is handled by \<open>addSecret\<close>.
\<close>

definition OnUpdate :: "stdlib \<Rightarrow> obj \<Rightarrow> obj \<Rightarrow> Translator \<Rightarrow> Translator" where
  "OnUpdate lib oldObj newObj t =
     (let t = t\<lparr>cache := cache_OnUpdate oldObj newObj (cache t)\<rparr> in
      case newObj of
        ObjService newsvc \<Rightarrow>
          (case oldObj of
             ObjService oldsvc \<Rightarrow> updateService oldsvc newsvc t
           | _ \<Rightarrow> Errorf ''OnUpdate service received invalid oldObj'' t)
      | ObjIngress newIng \<Rightarrow>
          (case oldObj of
             ObjIngress oldIng \<Rightarrow> t_VirtualHostCache_Notify (updateIngress lib oldIng newIng t)
           | _ \<Rightarrow> Errorf ''OnUpdate endpoints received invalid oldObj'' t)
      | ObjSecret s \<Rightarrow> addSecret s t
      | ObjIngressRoute newIng \<Rightarrow>
          (case oldObj of
             ObjIngressRoute oldIng \<Rightarrow>
               t_VirtualHostCache_Notify (updateIngressRoute lib oldIng newIng t)
           | _ \<Rightarrow> Errorf ''OnUpdate ingressRoute received invalid oldObj'' t)
      | _ \<Rightarrow> Errorf ''OnUpdate unexpected type'' t)"

text \<open>
  \<open>OnDelete(obj)\<close>: a tombstone is handled by recursion on the object it wraps
  (\<open>t.OnDelete(obj.Obj)\<close>), after \<open>t.cache.OnDelete\<close> has seen the tombstone itself.
\<close>

fun OnDelete :: "stdlib \<Rightarrow> obj \<Rightarrow> Translator \<Rightarrow> Translator" where
  "OnDelete lib (ObjService s) t =
     removeService s (t\<lparr>cache := cache_OnDelete (ObjService s) (cache t)\<rparr>)"
| "OnDelete lib (ObjIngress i) t =
     t_VirtualHostCache_Notify
       (removeIngress lib i (t\<lparr>cache := cache_OnDelete (ObjIngress i) (cache t)\<rparr>))"
| "OnDelete lib (ObjSecret s) t =
     removeSecret s (t\<lparr>cache := cache_OnDelete (ObjSecret s) (cache t)\<rparr>)"
| "OnDelete lib (DeletedFinalStateUnknown x) t =
     OnDelete lib x (t\<lparr>cache := cache_OnDelete (DeletedFinalStateUnknown x) (cache t)\<rparr>)"
| "OnDelete lib (ObjIngressRoute r) t =
     removeIngressRoute lib r (t\<lparr>cache := cache_OnDelete (ObjIngressRoute r) (cache t)\<rparr>)"
| "OnDelete lib ObjUnknown t =
     Errorf ''OnDelete unexpected type'' (t\<lparr>cache := cache_OnDelete ObjUnknown (cache t)\<rparr>)"

section \<open>The derived caches of a translator\<close>

text \<open>
  The derived caches an event may write: the listener cache, the cluster cache and
  the contents of the two virtual host caches.
\<close>

definition derived_contents ::
  "Translator \<Rightarrow> ListenerCache \<times> ClusterCache
     \<times> (string \<rightharpoonup> VirtualHost) \<times> (string \<rightharpoonup> VirtualHost)" where
  "derived_contents t =
     (t_ListenerCache t, t_ClusterCache t,
      vhc_HTTP (t_VirtualHostCache t), vhc_HTTPS (t_VirtualHostCache t))"

section \<open>Example objects\<close>

text \<open>A listener cache with nothing configured and nothing stored.\<close>

definition ex_lc :: ListenerCache where
  "ex_lc = \<lparr>HTTPAddress = '''', HTTPPort = 0, HTTPAccessLog = '''',
            HTTPSAddress = '''', HTTPSPort = 0, HTTPSAccessLog = '''',
            UseProxyProto = False, listenerCache = Map.empty, lc_Cond = 0\<rparr>"

definition ex_secret_good :: Secret where
  "ex_secret_good = \<lparr>sec_Name = ''good'', sec_Namespace = ''default'',
     Data = [TLSCertKey \<mapsto> ''CERT'', TLSPrivateKeyKey \<mapsto> ''KEY'']\<rparr>"

definition ex_secret_nokey :: Secret where
  "ex_secret_nokey = \<lparr>sec_Name = ''nokey'', sec_Namespace = ''default'',
     Data = [TLSCertKey \<mapsto> ''CERT'']\<rparr>"

definition ex_secrets :: "metadata \<rightharpoonup> Secret" where
  "ex_secrets = [\<lparr>name = ''good'', namespace = ''default''\<rparr> \<mapsto> ex_secret_good,
                 \<lparr>name = ''nokey'', namespace = ''default''\<rparr> \<mapsto> ex_secret_nokey]"

text \<open>
  Three ingresses with TLS specs: the first names the complete secret and a secret that
  does not exist; the second names the secret without a key; the third names \<open>good\<close> from
  another namespace, where there is no such secret.
\<close>

definition ex_ing_tls :: "string \<Rightarrow> string \<Rightarrow> IngressTLS list \<Rightarrow> Ingress" where
  "ex_ing_tls ns n tlss =
     \<lparr>ing_Name = n, ing_Namespace = ns, ing_Annotations = Map.empty,
      Spec_Backend = None, Spec_TLS = tlss, Spec_Rules = []\<rparr>"

definition ex_tls_ingresses :: "(metadata \<times> Ingress) list" where
  "ex_tls_ingresses =
     [(\<lparr>name = ''httpbin'', namespace = ''default''\<rparr>,
       ex_ing_tls ''default'' ''httpbin''
         [\<lparr>Hosts = [''httpbin.org''], SecretName = ''good''\<rparr>,
          \<lparr>Hosts = [''www.httpbin.org''], SecretName = ''absent''\<rparr>]),
      (\<lparr>name = ''other'', namespace = ''default''\<rparr>,
       ex_ing_tls ''default'' ''other'' [\<lparr>Hosts = [''other.org''], SecretName = ''nokey''\<rparr>]),
      (\<lparr>name = ''admin'', namespace = ''kube-system''\<rparr>,
       ex_ing_tls ''kube-system'' ''admin'' [\<lparr>Hosts = [''admin.org''], SecretName = ''good''\<rparr>])]"

text \<open>The same cache holding an \<open>ingress_https\<close> listener and an \<open>ingress_http\<close> listener.\<close>

definition ex_lc_both :: ListenerCache where
  "ex_lc_both = ex_lc\<lparr>listenerCache :=
     [ENVOY_HTTPS_LISTENER \<mapsto> https_listener ex_lc [filterchain False []],
      ENVOY_HTTP_LISTENER \<mapsto>
        \<lparr>l_Name = ENVOY_HTTP_LISTENER, l_Address = socketaddress ''0.0.0.0'' 8080,
         FilterChains = [filterchain False []]\<rparr>]\<rparr>"

text \<open>
  The standard library on the strings the examples use: the digests above;
  \<open>time.ParseDuration\<close> of \<open>600s\<close> and of \<open>10m\<close> is ten minutes in nanoseconds, and it
  rejects \<open>600\<close> (no unit) and \<open>infinity\<close>; a path with \<open>*\<close> is a regular expression (the
  test "regex vhost with match characters").
\<close>

definition ex_ParseDuration :: "string \<Rightarrow> int option" where
  "ex_ParseDuration v =
     (if v = ''600s'' \<or> v = ''10m'' then Some 600000000000 else None)"

definition ex_lib :: stdlib where
  "ex_lib = \<lparr>lib_sha256hex = sha256hex_known, lib_ParseDuration = ex_ParseDuration,
             lib_containsRegexMeta = (\<lambda>p. CHR ''*'' \<in> set p)\<rparr>"

definition ex_cache :: translatorCache where
  "ex_cache = \<lparr>ingresses = [], routes = [], secrets = Map.empty, services = Map.empty,
               vhosts = (\<lambda>h. []), vhostroutes = (\<lambda>h. [])\<rparr>"

text \<open>A translator as \<open>&Translator{}\<close> leaves it: nothing configured, nothing cached.\<close>

definition ex_translator :: Translator where
  "ex_translator =
     \<lparr>FieldLogger = [],
      t_ClusterCache = \<lparr>clusterCache = Map.empty, cc_Cond = 0\<rparr>,
      t_ListenerCache = ex_lc,
      t_VirtualHostCache = \<lparr>vhc_HTTP = Map.empty, vhc_HTTPS = Map.empty, vhc_Cond = 0\<rparr>,
      IngressClass = '''',
      cache = ex_cache\<rparr>"

text \<open>
  An IngressRoute and an Ingress for \<open>httpbin.org\<close> whose ingress class annotation names
  another controller.
\<close>

definition ex_route_nginx :: IngressRoute where
  "ex_route_nginx =
     \<lparr>ir_Name = ''httpbin'', ir_Namespace = ''default'',
      ir_Annotations = [''kubernetes.io/ingress.class'' \<mapsto> ''nginx''],
      Fqdn = ''httpbin.org'',
      Routes = [\<lparr>Match = ''/'',
                 Services = [\<lparr>rs_Name = ''httpbin-org'', rs_Port = 80, rs_Weight = None\<rparr>]\<rparr>]\<rparr>"

definition ex_ingress_nginx :: Ingress where
  "ex_ingress_nginx =
     \<lparr>ing_Name = ''httpbin'', ing_Namespace = ''default'',
      ing_Annotations = [''kubernetes.io/ingress.class'' \<mapsto> ''nginx''],
      Spec_Backend = None, Spec_TLS = [],
      Spec_Rules = [\<lparr>Host = ''httpbin.org'',
        HTTP = Some [\<lparr>Path = ''/'',
          Backend = \<lparr>ServiceName = ''httpbin-org'', ServicePort = FromInt 80\<rparr>\<rparr>]\<rparr>]\<rparr>"

definition ex_translator_both :: Translator where
  "ex_translator_both = ex_translator\<lparr>t_ListenerCache := ex_lc_both\<rparr>"

text \<open>
  The ingress of the test "tls" (\<open>TestVirtualHostCacheRecomputevhost\<close>): a TLS spec for
  \<open>httpbin.org\<close> naming the secret \<open>secret\<close>, and one rule for that host.
\<close>

definition ex_backend :: "string \<Rightarrow> int \<Rightarrow> IngressBackend" where
  "ex_backend n p = \<lparr>ServiceName = n, ServicePort = FromInt p\<rparr>"


text \<open>
  The ingresses of \<open>TestRequestTimeout\<close>: a default backend, without the annotation and
  with the values \<open>600\<close>, \<open>600s\<close> and \<open>infinity\<close>.
\<close>

definition ex_ingress_timeout :: "string option \<Rightarrow> Ingress" where
  "ex_ingress_timeout v =
     \<lparr>ing_Name = ''hello'', ing_Namespace = ''default'',
      ing_Annotations = (\<lambda>k. if k = ''contour.heptio.com/request-timeout'' then v else None),
      Spec_Backend = Some (ex_backend ''backend'' 80), Spec_TLS = [], Spec_Rules = []\<rparr>"


definition ex_vhc :: VirtualHostCache where
  "ex_vhc = \<lparr>vhc_HTTP = Map.empty, vhc_HTTPS = Map.empty, vhc_Cond = 0\<rparr>"

text \<open>
  The two ingresses of \<open>TestSSLRedirectOverlay\<close>: \<open>app\<close>, with a TLS spec and
  \<open>force-ssl-redirect\<close> on the route \<open>/\<close>, and the overlay \<open>challenge\<close> of another
  namespace with the route of the ACME challenge.
\<close>

definition ex_acme_path :: string where
  "ex_acme_path = ''/.well-known/acme-challenge/gVJl5NWL2owUqZekjHkt_bo3OHYC2XNDURRRgLI5JTk''"

definition ex_ingress_app :: Ingress where
  "ex_ingress_app =
     \<lparr>ing_Name = ''app'', ing_Namespace = ''default'',
      ing_Annotations = [''ingress.kubernetes.io/force-ssl-redirect'' \<mapsto> ''true''],
      Spec_Backend = None,
      Spec_TLS = [\<lparr>Hosts = [''example.com''], SecretName = ''example-tls''\<rparr>],
      Spec_Rules = [\<lparr>Host = ''example.com'',
                     HTTP = Some [\<lparr>Path = ''/'', Backend = ex_backend ''app-service'' 8080\<rparr>]\<rparr>]\<rparr>"

definition ex_ingress_challenge :: Ingress where
  "ex_ingress_challenge =
     \<lparr>ing_Name = ''challenge'', ing_Namespace = ''nginx-ingress'',
      ing_Annotations = Map.empty, Spec_Backend = None, Spec_TLS = [],
      Spec_Rules = [\<lparr>Host = ''example.com'',
                     HTTP = Some [\<lparr>Path = ex_acme_path,
                                   Backend = ex_backend ''challenge-service'' 8009\<rparr>]\<rparr>]\<rparr>"

text \<open>
  The service of \<open>TestClusterCacheRecomputeService\<close>, \<open>default/kuard\<close> with the TCP port
  443, unnamed or named \<open>https\<close>.
\<close>

definition ex_service :: "string \<Rightarrow> Service" where
  "ex_service portname =
     \<lparr>svc_Name = ''kuard'', svc_Namespace = ''default'', svc_Annotations = Map.empty,
      Ports = [\<lparr>sp_Name = portname, sp_Protocol = ''TCP'', sp_Port = 443,
                sp_TargetPort = FromInt 8443\<rparr>]\<rparr>"

text \<open>
  A translator configured with an HTTP access log of its own, after the \<open>OnAdd\<close> of an
  ordinary Ingress (the default backend of \<open>TestRequestTimeout\<close>): the listener
  \<open>ingress_http\<close> is in its listener cache.
\<close>

definition ex_translator_log :: Translator where
  "ex_translator_log =
     OnAdd ex_lib (ObjIngress (ex_ingress_timeout None))
       (ex_translator\<lparr>t_ListenerCache := ex_lc\<lparr>HTTPAccessLog := ''/var/log/envoy_http.log''\<rparr>\<rparr>)"

text \<open>
  The Ingress \<open>default/httpbin\<close> before it was given to another controller: no ingress
  class annotation, and another backend.
\<close>

definition ex_ingress_plain :: Ingress where
  "ex_ingress_plain =
     ex_ingress_nginx
       \<lparr>ing_Annotations := Map.empty,
        Spec_Rules := [\<lparr>Host = ''httpbin.org'',
          HTTP = Some [\<lparr>Path = ''/'',
            Backend = \<lparr>ServiceName = ''httpbin-old'', ServicePort = FromInt 80\<rparr>\<rparr>]\<rparr>]\<rparr>"

section \<open>The model on the tests of the sources\<close>

text \<open>\<open>TestServiceName\<close>, and \<open>servicename\<close> in general.\<close>

lemma servicename_test_table:
  "servicename ''default'' ''kuard'' ''http'' = ''default/kuard/http''"
  "servicename ''default'' ''kuard'' '''' = ''default/kuard''"
  by (simp_all add: servicename_def)

lemma servicename_eq:
  "servicename ns n p = (if p = '''' then ns @ ''/'' @ n else ns @ ''/'' @ n @ ''/'' @ p)"
  by (simp add: servicename_def)

text \<open>\<open>TestValidTLSSpecforVhost\<close>.\<close>

lemma validTLSSpecforVhost_test_table:
  "\<not> validTLSSpecforVhost ''*'' (ex_ing_tls '''' '''' [])"
  "validTLSSpecforVhost ''httpbin.davecheney.com''
     (ex_ing_tls '''' '''' [\<lparr>Hosts = [''httpbin.davecheney.com''], SecretName = ''httpbin''\<rparr>])"
  "\<not> validTLSSpecforVhost ''httpbin.davecheney.com''
     (ex_ing_tls '''' '''' [\<lparr>Hosts = [''www.davecheney.com''], SecretName = ''dubdubdub''\<rparr>])"
  "\<not> validTLSSpecforVhost ''httpbin.davecheney.com''
     (ex_ing_tls '''' '''' [\<lparr>Hosts = [''httpbin.davecheney.com''], SecretName = ''''\<rparr>])"
  by (simp_all add: validTLSSpecforVhost_def ex_ing_tls_def)

text \<open>
  \<open>TestSSLRedirectOverlay\<close>: on the HTTP side the challenge route and then the redirect
  of \<open>/\<close>; on the HTTPS side the route \<open>/\<close> of the ingress with the TLS spec only.
\<close>

lemma ssl_redirect_overlay_routes:
  "http_routes ex_lib ''example.com''
     [(ing_meta ex_ingress_app, ex_ingress_app),
      (ing_meta ex_ingress_challenge, ex_ingress_challenge)]
   = [\<lparr>route_Match = Prefix ex_acme_path,
        route_Action = Route_Route
          \<lparr>cluster_specifier = Cluster ''nginx-ingress/challenge-service/8009'',
           Timeout = None, UseWebsocket = None\<rparr>\<rparr>,
      \<lparr>route_Match = Prefix ''/'', route_Action = Route_Redirect True\<rparr>]"
  "https_routes ex_lib ''example.com''
     [(ing_meta ex_ingress_app, ex_ingress_app),
      (ing_meta ex_ingress_challenge, ex_ingress_challenge)]
   = [\<lparr>route_Match = Prefix ''/'',
        route_Action = Route_Route
          \<lparr>cluster_specifier = Cluster ''default/app-service/8080'',
           Timeout = None, UseWebsocket = None\<rparr>\<rparr>]"
  by (simp_all add: http_routes_def https_routes_def validTLSSpecforVhost_def
      httpAllowed_def annotation_def ingress_routes_def http_action_def clusteraction_def
      request_timeout_def annotationRequestTimeout_def annotationForceSSLRedirect_def
      websocket_routes_def annotationWebsocketRoutes_def pathToRouteMatch_def
      ingressBackendToClusterName_def clustername_def longestRouteFirst_def
      ex_ingress_app_def ex_ingress_challenge_def ex_backend_def ex_lib_def ex_acme_path_def
      itoa_def itoa_nat.simps)


text \<open>
  \<open>TestClusterCacheRecomputeService\<close>, "add unnamed service" and "name previously
  unnamed port".
\<close>

lemma itoa_443: "itoa 443 = ''443''"
  by (simp add: itoa_def itoa_nat.simps)

lemma recomputeService_test_unnamed:
  "service_clusters (Some (ex_service '''')) =
     [\<lparr>c_Name = ''default/kuard/443'', eds_ServiceName = ''default/kuard''\<rparr>]"
  by (simp add: service_clusters_def port_clusters_def ex_service_def servicename_def
      clustername_def itoa_443 Let_def)

lemma recomputeService_test_named:
  "service_clusters (Some (ex_service ''https'')) =
     [\<lparr>c_Name = ''default/kuard/https'', eds_ServiceName = ''default/kuard/https''\<rparr>,
      \<lparr>c_Name = ''default/kuard/443'', eds_ServiceName = ''default/kuard/https''\<rparr>]"
  by (simp add: service_clusters_def port_clusters_def ex_service_def servicename_def
      clustername_def itoa_443 Let_def)

section \<open>Properties of hashname\<close>

lemma truncate_refines:
  "truncate (int w) p h6 = Inr (truncate_part w h6 p)"
  by (auto simp: truncate_def truncate_part_def slice_to_def min_int_def nat_diff_distrib)

lemma go_div_nat: "go_div (int a) (int b) = int (a div b)"
  by (simp add: go_div_def zdiv_int)

lemma truncated_from_step:
  assumes "n < length parts"
  shows "(truncated_from w h6 (Suc n) parts)[n := truncate_part w h6 (parts ! n)]
           = truncated_from w h6 n parts"
proof -
  have d: "drop n parts = parts ! n # drop (Suc n) parts"
    using assms by (simp add: Cons_nth_drop_Suc)
  have t: "take (Suc n) parts = take n parts @ [parts ! n]"
    using assms by (simp add: take_Suc_conv_app_nth)
  show ?thesis
    unfolding truncated_from_def d t
    using assms by (simp add: list_update_append)
qed

lemma truncated_from_nth:
  "n < length parts \<Longrightarrow> truncated_from w h6 (Suc n) parts ! n = parts ! n"
  by (simp add: truncated_from_def nth_append)

lemma length_truncated_from [simp]: "length (truncated_from w h6 i parts) = length parts"
  by (simp add: truncated_from_def)

lemma truncated_from_all [simp]: "truncated_from w h6 (length parts) parts = parts"
  by (simp add: truncated_from_def)

text \<open>
  The loop, entered at index \<open>n - 1\<close> with the parts from \<open>n\<close> on already cut, returns
  the first candidate (searching downward from \<open>n - 1\<close>) that is shorter than \<open>L\<close>.
\<close>

lemma hashname_loop_refines:
  assumes "6 \<le> length h" "n \<le> length parts"
  shows "hashname_loop (int L) h n (truncated_from (L div length parts) (take 6 h) n parts)
       = Inr (map_option (\<lambda>i. join (truncated_from (L div length parts) (take 6 h) i parts))
               (find (\<lambda>i. length (join (truncated_from (L div length parts) (take 6 h) i parts)) < L)
                  (rev [0..<n])))"
  using assms(2)
proof (induction n)
  case 0
  show ?case by simp
next
  case (Suc n)
  have sl: "slice_to h shorthash = Inr (take 6 h)"
    using assms(1) by (simp add: slice_to_def shorthash_def)
  from Suc.prems have n: "n < length parts" by simp
  show ?case
    using Suc.IH n
    by (simp add: sl go_div_nat truncate_refines truncated_from_nth truncated_from_step Let_def)
qed

lemma hashname_refines:
  assumes "6 \<le> length (sha256hex (join parts))"
  shows "hashname sha256hex (int L) parts = Inr (hashname_search sha256hex L parts)"
proof -
  let ?h = "sha256hex (join parts)"
  have loop: "hashname_loop (int L) ?h (length parts) parts
       = Inr (map_option (\<lambda>i. join (truncated_from (L div length parts) (take 6 ?h) i parts))
               (find (\<lambda>i. length (join (truncated_from (L div length parts) (take 6 ?h) i parts)) < L)
                  (rev [0..<length parts])))"
    using assms
      hashname_loop_refines [where h = "?h" and parts = parts and n = "length parts" and L = L]
    by simp
  have fin: "slice_to ?h (min_int (int (length ?h)) (int L)) = Inr (take L ?h)"
    by (auto simp: slice_to_def min_int_def)
  show ?thesis
    unfolding hashname_def hashname_search_def Let_def loop
    by (auto simp: fin split: option.splits)
qed

lemma hashname_search_le: "length (hashname_search sha256hex L parts) \<le> L"
  unfolding hashname_search_def Let_def
  by (auto split: option.splits dest!: find_Some_iff[THEN iffD1])

lemma hashname_search_short:
  "length (join parts) < L \<Longrightarrow> hashname_search sha256hex L parts = join parts"
  by (simp add: hashname_search_def)

text \<open>
  What \<open>hashname\<close> computes, for every length bound \<open>L\<close> and every list of parts (the
  digest being the 64 hexadecimal characters of SHA-256): it does not panic; it returns
  the "/"-joined string unchanged when that is strictly shorter than \<open>L\<close>; otherwise the
  first of the successive truncations, from the last part toward the first, that is
  strictly shorter than \<open>L\<close>, a part longer than \<open>L div k\<close> being cut to \<open>L div k\<close>
  characters (its start, "-" and six characters of the hash; or, when \<open>L div k\<close> is six
  or less, the first \<open>L div k\<close> characters of the hash alone); otherwise the hash cut to
  \<open>L\<close> characters. The result is never longer than \<open>L\<close>.
\<close>

theorem hashname_bounded:
  assumes "length (sha256hex (join parts)) = 64"
  shows "hashname sha256hex (int L) parts = Inr (hashname_search sha256hex L parts)
       \<and> length (hashname_search sha256hex L parts) \<le> L
       \<and> (length (join parts) < L \<longrightarrow> hashname_search sha256hex L parts = join parts)"
  using assms hashname_refines [of sha256hex parts L]
  by (simp add: hashname_search_le hashname_search_short)

theorem hashname_bounded_witness:
  "length (sha256hex_known (join [long_host])) = 64
   \<and> hashname sha256hex_known 60 [long_host]
       = Inr ''d31bb322ca62bb395acad00b3cbf45a3aa1010ca28dca7cddb4f7db786fa''
   \<and> length (sha256hex_known (join [''default'', ''kuard'', ''80''])) = 64
   \<and> length (join [''default'', ''kuard'', ''80'']) < 60
   \<and> hashname sha256hex_known 60 [''default'', ''kuard'', ''80''] = Inr ''default/kuard/80''"
proof -
  have h1: "length (sha256hex_known (join [long_host])) = 64"
    by (simp add: sha256hex_known_def long_host_def)
  have h2: "length (sha256hex_known (join [''default'', ''kuard'', ''80''])) = 64"
    by (simp add: sha256hex_known_def long_host_def)
  have s1: "hashname_search sha256hex_known 60 [long_host]
              = ''d31bb322ca62bb395acad00b3cbf45a3aa1010ca28dca7cddb4f7db786fa''"
    by (simp add: hashname_search_def sha256hex_known_def long_host_def truncated_from_def
        truncate_part_def)
  have s2: "length (join [''default'', ''kuard'', ''80'']) < 60" by simp
  from hashname_bounded [where sha256hex = sha256hex_known and parts = "[long_host]" and L = 60]
    hashname_bounded [where sha256hex = sha256hex_known
      and parts = "[''default'', ''kuard'', ''80'']" and L = 60]
    h1 h2 s1 s2
  show ?thesis by simp
qed

text \<open>
  The name of a VirtualHost is at most 60 characters long, whatever the host: a host of
  more than 60 characters is replaced by the result of \<open>hashname\<close> at the bound 60.
\<close>

lemma virtualhost_name_bounded:
  assumes "length (lib_sha256hex lib (join [host])) = 64"
  shows "length (vh_Name (virtualhost lib host port rs)) \<le> 60"
proof (cases "length host > 60")
  case True
  from hashname_refines [of "lib_sha256hex lib" "[host]" 60] assms
  have "hashname (lib_sha256hex lib) 60 [host]
          = Inr (hashname_search (lib_sha256hex lib) 60 [host])"
    by simp
  with True show ?thesis
    using hashname_search_le [of "lib_sha256hex lib" 60 "[host]"]
    by (simp add: virtualhost_def virtualhost_name_def)
next
  case False
  then show ?thesis by (simp add: virtualhost_def virtualhost_name_def)
qed

text \<open>
  C2. \<open>hashname(L, parts)\<close> is to return the "/"-joined string unchanged when it is within
  \<open>L\<close> characters; the comment of the function says the same: its result does not exceed
  \<open>L\<close>, and parts are truncated only "if the combined length exceeds l". The first
  comparison of the function, \<open>l > len(r)\<close>, is strict: a joined string of exactly \<open>L\<close>
  characters is within \<open>L\<close> and does not exceed it, yet it is not returned. With \<open>L = 5\<close>
  and the one part "alpha", the part is as long as \<open>L div 1\<close>, so truncating leaves it as
  it is, the loop's comparison fails as the first did, and the result is the first five
  characters of the SHA-256 digest of "alpha" instead of "alpha".
\<close>

theorem hashname_exact_length_replaced:
  "length (join [''alpha'']) = 5
   \<and> sha256hex_known (join [''alpha''])
       = ''8ed3f6ad685b959ead7022518e1af76cd816f8e8ec7ccdda1ed4018e8f2223f8''
   \<and> truncate 5 ''alpha'' ''8ed3f6'' = Inr ''alpha''
   \<and> hashname sha256hex_known 5 [''alpha''] = Inr ''8ed3f''
   \<and> hashname sha256hex_known 5 [''alpha''] \<noteq> Inr (join [''alpha''])"
  by (simp add: hashname_def sha256hex_known_def slice_to_def min_int_def shorthash_def
      truncate_def go_div_def)

section \<open>Properties of the listener cache\<close>

lemma tls_specs_loop_eq:
  "tls_specs_loop lc secs filters i tlss fcs
     = fcs @ List.map_filter
               (\<lambda>tls. map_option (tls_filterchain lc filters i tls) (tls_secret secs i tls)) tlss"
proof (induction tlss arbitrary: fcs)
  case Nil
  show ?case by (simp add: List.map_filter_simps)
next
  case (Cons tls rest)
  show ?case
    by (cases "secs \<lparr>name = SecretName tls, namespace = ing_Namespace i\<rparr>")
      (auto simp: Cons.IH tls_secret_def List.map_filter_simps)
qed

lemma tls_ingresses_loop_eq:
  "tls_ingresses_loop lc secs filters ings fcs
     = fcs @ concat (map (\<lambda>(m, i).
         List.map_filter
           (\<lambda>tls. map_option (tls_filterchain lc filters i tls) (tls_secret secs i tls))
           (Spec_TLS i)) ings)"
proof (induction ings arbitrary: fcs)
  case Nil
  show ?case by simp
next
  case (Cons mi rest)
  obtain m i where mi: "mi = (m, i)" by (cases mi)
  show ?case
    by (simp add: mi Cons.IH tls_specs_loop_eq validTLSIngress_def List.map_filter_simps)
qed

lemma recomputeTLSListener0_eq:
  "recomputeTLSListener0 lc ings secs =
     (if tls_filterchains lc secs ings = [] then ([], [ENVOY_HTTPS_LISTENER])
      else ([https_listener lc (tls_filterchains lc secs ings)], []))"
  by (simp add: recomputeTLSListener0_def tls_ingresses_loop_eq tls_filterchains_def
      https_listener_def Let_def)

lemma length_tls_filterchains:
  "length (tls_filterchains lc secs ings) =
     sum_list (map (\<lambda>(m, i). length (filter (\<lambda>tls. tls_secret secs i tls \<noteq> None) (Spec_TLS i)))
               ings)"
proof -
  have one: "length (List.map_filter (\<lambda>tls. map_option (g tls) (tls_secret secs i tls)) tlss)
               = length (filter (\<lambda>tls. tls_secret secs i tls \<noteq> None) tlss)"
    for g :: "IngressTLS \<Rightarrow> Secret \<Rightarrow> FilterChain" and i tlss
    by (induction tlss) (auto simp: List.map_filter_simps split: option.splits)
  show ?thesis
    unfolding tls_filterchains_def
    by (induction ings) (auto simp: length_concat one)
qed

lemma recomputeListener0_cases:
  "recomputeListener0 lc ings = ([], [ENVOY_HTTP_LISTENER])
   \<or> (\<exists>l. recomputeListener0 lc ings = ([l], []) \<and> l_Name l = ENVOY_HTTP_LISTENER)"
  by (simp add: recomputeListener0_def Let_def)

lemma recomputeListenerIngressRoute0_cases:
  "recomputeListenerIngressRoute0 lc rts = ([], [ENVOY_HTTP_LISTENER])
   \<or> (\<exists>l. recomputeListenerIngressRoute0 lc rts = ([l], [])
          \<and> l_Name l = ENVOY_HTTP_LISTENER)"
  by (simp add: recomputeListenerIngressRoute0_def Let_def)

lemma listener_names_differ: "ENVOY_HTTP_LISTENER \<noteq> ENVOY_HTTPS_LISTENER"
  by (simp add: ENVOY_HTTP_LISTENER_def ENVOY_HTTPS_LISTENER_def)

lemma recomputeListeners_https:
  "listenerCache (recomputeListeners ings secs lc) ENVOY_HTTPS_LISTENER =
     (if tls_filterchains lc secs ings = [] then None
      else Some (https_listener lc (tls_filterchains lc secs ings)))"
  using recomputeListener0_cases [of lc ings] listener_names_differ
  by (auto simp: recomputeListeners_def recomputeTLSListener0_eq lc_Add_def lc_Remove_def
      lc_Notify_def https_listener_def)

text \<open>
  C6. Recomputing \<open>ingress_https\<close> always returns (nothing in it can fail): it yields
  one filter chain for each pair of an ingress and one of its TLS specs whose secret
  exists in the ingress's namespace with both the certificate and the private key entry,
  and skips every other pair. When there is such a pair the listener with exactly these
  filter chains is stored under \<open>ingress_https\<close>; when there is none, \<open>ingress_https\<close> is
  removed from the cache, not stored empty; \<open>recomputeTLSListener\<close> (on a Secret event)
  and \<open>recomputeListeners\<close> (on an Ingress event) both do so, and \<open>recomputeTLSListener\<close>
  touches no other listener of the cache.
\<close>

theorem recomputeTLSListener_filterchains:
  "recomputeTLSListener0 lc ings secs =
     (if tls_filterchains lc secs ings = [] then ([], [ENVOY_HTTPS_LISTENER])
      else ([https_listener lc (tls_filterchains lc secs ings)], []))
   \<and> length (tls_filterchains lc secs ings) =
       sum_list (map (\<lambda>(m, i).
          length (filter (\<lambda>tls. tls_secret secs i tls \<noteq> None) (Spec_TLS i))) ings)
   \<and> listenerCache (recomputeTLSListener ings secs lc) ENVOY_HTTPS_LISTENER =
       (if tls_filterchains lc secs ings = [] then None
        else Some (https_listener lc (tls_filterchains lc secs ings)))
   \<and> listenerCache (recomputeListeners ings secs lc) ENVOY_HTTPS_LISTENER =
       (if tls_filterchains lc secs ings = [] then None
        else Some (https_listener lc (tls_filterchains lc secs ings)))
   \<and> (\<forall>n. n \<noteq> ENVOY_HTTPS_LISTENER \<longrightarrow>
         listenerCache (recomputeTLSListener ings secs lc) n = listenerCache lc n)"
  using length_tls_filterchains [of lc secs ings]
  by (simp add: recomputeTLSListener_def recomputeTLSListener0_eq lc_Add_def lc_Remove_def
      lc_Notify_def https_listener_def recomputeListeners_https)

lemma ex_tls_filterchains:
  "tls_filterchains lc ex_secrets ex_tls_ingresses =
     [tls_filterchain lc [httpfilter ENVOY_HTTPS_LISTENER (httpsAccessLog lc)]
        (ex_ing_tls ''default'' ''httpbin''
           [\<lparr>Hosts = [''httpbin.org''], SecretName = ''good''\<rparr>,
            \<lparr>Hosts = [''www.httpbin.org''], SecretName = ''absent''\<rparr>])
        \<lparr>Hosts = [''httpbin.org''], SecretName = ''good''\<rparr> ex_secret_good]"
  by (simp add: tls_filterchains_def ex_tls_ingresses_def ex_ing_tls_def ex_secrets_def
      ex_secret_good_def ex_secret_nokey_def List.map_filter_simps tls_secret_def
      TLSCertKey_def TLSPrivateKeyKey_def)

lemma ex_tls_filterchains_no_secrets:
  "tls_filterchains lc Map.empty ex_tls_ingresses = []"
  by (simp add: tls_filterchains_def ex_tls_ingresses_def ex_ing_tls_def
      List.map_filter_simps tls_secret_def)

theorem recomputeTLSListener_filterchains_witness:
  "map SniDomains (FilterChains (the
      (listenerCache (recomputeTLSListener ex_tls_ingresses ex_secrets ex_lc)
         ENVOY_HTTPS_LISTENER))) = [Some [''httpbin.org'']]
   \<and> recomputeTLSListener0 ex_lc_both ex_tls_ingresses Map.empty = ([], [''ingress_https''])
   \<and> listenerCache ex_lc_both ENVOY_HTTPS_LISTENER \<noteq> None
   \<and> listenerCache (recomputeTLSListener ex_tls_ingresses Map.empty ex_lc_both)
        ENVOY_HTTPS_LISTENER = None
   \<and> ENVOY_HTTP_LISTENER \<noteq> ENVOY_HTTPS_LISTENER
   \<and> listenerCache (recomputeTLSListener ex_tls_ingresses Map.empty ex_lc_both)
        ENVOY_HTTP_LISTENER = listenerCache ex_lc_both ENVOY_HTTP_LISTENER"
proof -
  have n: "ENVOY_HTTP_LISTENER \<noteq> ENVOY_HTTPS_LISTENER"
    by (simp add: ENVOY_HTTP_LISTENER_def ENVOY_HTTPS_LISTENER_def)
  have s: "listenerCache ex_lc_both ENVOY_HTTPS_LISTENER \<noteq> None"
    using n by (simp add: ex_lc_both_def)
  from recomputeTLSListener_filterchains [of ex_lc ex_tls_ingresses ex_secrets]
    recomputeTLSListener_filterchains [of ex_lc_both ex_tls_ingresses Map.empty]
    n s
  show ?thesis
    by (simp add: ex_tls_filterchains ex_tls_filterchains_no_secrets https_listener_def
        tls_filterchain_def ENVOY_HTTPS_LISTENER_def ENVOY_HTTP_LISTENER_def ex_lc_def
        Let_def)
qed

section \<open>Properties of the event handlers\<close>

lemma recomputeListenersIngressRoute_others:
  "n \<noteq> ENVOY_HTTP_LISTENER \<Longrightarrow>
     listenerCache (recomputeListenersIngressRoute rts secs lc) n = listenerCache lc n"
  using recomputeListenerIngressRoute0_cases [of lc rts]
  by (auto simp: recomputeListenersIngressRoute_def lc_Add_def lc_Remove_def lc_Notify_def)

lemma addIngressRoute_others:
  "n \<noteq> ENVOY_HTTP_LISTENER \<Longrightarrow>
     listenerCache (t_ListenerCache (addIngressRoute lib r t)) n
       = listenerCache (t_ListenerCache t) n"
  by (simp add: addIngressRoute_def Let_def t_recomputevhostIngressRoute_def
      t_VirtualHostCache_Notify_def recomputeListenersIngressRoute_others)

lemma removeIngressRoute_others:
  "n \<noteq> ENVOY_HTTP_LISTENER \<Longrightarrow>
     listenerCache (t_ListenerCache (removeIngressRoute lib r t)) n
       = listenerCache (t_ListenerCache t) n"
  by (simp add: removeIngressRoute_def Let_def t_recomputevhostIngressRoute_def
      t_VirtualHostCache_Notify_def recomputeListenersIngressRoute_others)

lemma OnAdd_IngressRoute_others:
  "n \<noteq> ENVOY_HTTP_LISTENER \<Longrightarrow>
     listenerCache (t_ListenerCache (OnAdd lib (ObjIngressRoute r) t)) n
       = listenerCache (t_ListenerCache t) n"
  by (simp add: OnAdd_def addIngressRoute_others)

lemma OnDelete_IngressRoute_others:
  "n \<noteq> ENVOY_HTTP_LISTENER \<Longrightarrow>
     listenerCache (t_ListenerCache (OnDelete lib (ObjIngressRoute r) t)) n
       = listenerCache (t_ListenerCache t) n"
  by (simp add: removeIngressRoute_others)

lemma OnUpdate_IngressRoute_others:
  "n \<noteq> ENVOY_HTTP_LISTENER \<Longrightarrow>
     listenerCache (t_ListenerCache (OnUpdate lib oldObj (ObjIngressRoute r) t)) n
       = listenerCache (t_ListenerCache t) n"
  by (cases oldObj)
    (simp_all add: OnUpdate_def Let_def Errorf_def t_VirtualHostCache_Notify_def
      updateIngressRoute_def addIngressRoute_others removeIngressRoute_others)

text \<open>
  C10. An IngressRoute event, whatever the IngressRoute holds and whatever secrets are
  cached, writes no listener other than \<open>ingress_http\<close>: after \<open>OnAdd\<close>, after \<open>OnUpdate\<close>
  (from any old object), after \<open>OnDelete\<close> and after \<open>OnDelete\<close> of a tombstone around
  it, every other entry of the listener cache, \<open>ingress_https\<close> among them, is what it
  was before: not added, not replaced, not removed.
\<close>

theorem ingressroute_events_keep_https_listener:
  "(\<forall>n. n \<noteq> ENVOY_HTTP_LISTENER \<longrightarrow>
      listenerCache (t_ListenerCache (OnAdd lib (ObjIngressRoute r) t)) n
        = listenerCache (t_ListenerCache t) n
    \<and> listenerCache (t_ListenerCache (OnUpdate lib oldObj (ObjIngressRoute r) t)) n
        = listenerCache (t_ListenerCache t) n
    \<and> listenerCache (t_ListenerCache (OnDelete lib (ObjIngressRoute r) t)) n
        = listenerCache (t_ListenerCache t) n
    \<and> listenerCache (t_ListenerCache
          (OnDelete lib (DeletedFinalStateUnknown (ObjIngressRoute r)) t)) n
        = listenerCache (t_ListenerCache t) n)
   \<and> listenerCache (t_ListenerCache (OnAdd lib (ObjIngressRoute r) t)) ENVOY_HTTPS_LISTENER
       = listenerCache (t_ListenerCache t) ENVOY_HTTPS_LISTENER
   \<and> listenerCache (t_ListenerCache (OnUpdate lib oldObj (ObjIngressRoute r) t))
       ENVOY_HTTPS_LISTENER
       = listenerCache (t_ListenerCache t) ENVOY_HTTPS_LISTENER
   \<and> listenerCache (t_ListenerCache (OnDelete lib (ObjIngressRoute r) t))
       ENVOY_HTTPS_LISTENER
       = listenerCache (t_ListenerCache t) ENVOY_HTTPS_LISTENER"
  using listener_names_differ
  by (simp add: OnAdd_IngressRoute_others OnUpdate_IngressRoute_others
      removeIngressRoute_others
      OnAdd_IngressRoute_others [of ENVOY_HTTPS_LISTENER]
      OnUpdate_IngressRoute_others [of ENVOY_HTTPS_LISTENER]
      removeIngressRoute_others [of ENVOY_HTTPS_LISTENER])

theorem ingressroute_events_keep_https_listener_witness:
  "ENVOY_HTTPS_LISTENER \<noteq> ENVOY_HTTP_LISTENER
   \<and> listenerCache (t_ListenerCache ex_translator_both) ENVOY_HTTPS_LISTENER
       = Some (https_listener ex_lc [filterchain False []])
   \<and> listenerCache (t_ListenerCache
         (OnAdd ex_lib (ObjIngressRoute ex_route_nginx) ex_translator_both))
       ENVOY_HTTPS_LISTENER
       = Some (https_listener ex_lc [filterchain False []])
   \<and> listenerCache (t_ListenerCache
         (OnDelete ex_lib (ObjIngressRoute ex_route_nginx) ex_translator_both))
       ENVOY_HTTPS_LISTENER
       = Some (https_listener ex_lc [filterchain False []])"
proof -
  have n: "ENVOY_HTTPS_LISTENER \<noteq> ENVOY_HTTP_LISTENER"
    by (simp add: ENVOY_HTTP_LISTENER_def ENVOY_HTTPS_LISTENER_def)
  have s: "listenerCache (t_ListenerCache ex_translator_both) ENVOY_HTTPS_LISTENER
             = Some (https_listener ex_lc [filterchain False []])"
    using n by (simp add: ex_translator_both_def ex_translator_def ex_lc_both_def)
  from ingressroute_events_keep_https_listener
         [of ex_lib ex_route_nginx ex_translator_both ObjUnknown] n s
  show ?thesis by simp
qed

lemma ignored_class_cache [simp]:
  "ignored_class a (t\<lparr>cache := c\<rparr>) = ignored_class a t"
  by (simp add: ignored_class_def ingressClass_def split: option.splits)

lemma addIngress_ignored:
  "ignored_class (ing_Annotations i) t \<Longrightarrow> addIngress lib i t = t"
  by (simp add: addIngress_def)

lemma removeIngress_ignored:
  "ignored_class (ing_Annotations i) t \<Longrightarrow> removeIngress lib i t = t"
  by (simp add: removeIngress_def)

lemma OnAdd_ignored:
  assumes "ignored_class (ing_Annotations i) t"
  shows "OnAdd lib (ObjIngress i) t
           = t_VirtualHostCache_Notify (t\<lparr>cache := cache_OnAdd (ObjIngress i) (cache t)\<rparr>)"
  using assms by (simp add: OnAdd_def Let_def addIngress_ignored)

lemma OnDelete_ignored:
  assumes "ignored_class (ing_Annotations i) t"
  shows "OnDelete lib (ObjIngress i) t
           = t_VirtualHostCache_Notify (t\<lparr>cache := cache_OnDelete (ObjIngress i) (cache t)\<rparr>)"
  using assms by (simp add: removeIngress_ignored)

lemma OnUpdate_ignored:
  assumes "ignored_class (ing_Annotations old) t" "ignored_class (ing_Annotations i) t"
  shows "OnUpdate lib (ObjIngress old) (ObjIngress i) t
           = t_VirtualHostCache_Notify
               (t\<lparr>cache := cache_OnUpdate (ObjIngress old) (ObjIngress i) (cache t)\<rparr>)"
  using assms
  by (simp add: OnUpdate_def Let_def updateIngress_def removeIngress_ignored addIngress_ignored)

text \<open>
  The Ingress handlers look at the class: an Ingress whose ingress class annotation is set
  and differs from the configured class is ignored by \<open>addIngress\<close> and \<open>removeIngress\<close>.
  Its \<open>OnAdd\<close> and its \<open>OnDelete\<close>, and an \<open>OnUpdate\<close> whose old object is ignored too,
  leave the listener cache, the cluster cache and the contents of both virtual host
  caches as they were.
\<close>

theorem ignored_ingress_keeps_derived_caches:
  assumes "ignored_class (ing_Annotations i) t"
  shows "derived_contents (OnAdd lib (ObjIngress i) t) = derived_contents t
       \<and> derived_contents (OnDelete lib (ObjIngress i) t) = derived_contents t
       \<and> (ignored_class (ing_Annotations old) t \<longrightarrow>
            derived_contents (OnUpdate lib (ObjIngress old) (ObjIngress i) t)
              = derived_contents t)"
proof -
  have a: "derived_contents (OnAdd lib (ObjIngress i) t) = derived_contents t"
    unfolding OnAdd_ignored [OF assms]
    by (simp add: derived_contents_def t_VirtualHostCache_Notify_def vhc_Notify_def)
  have d: "derived_contents (OnDelete lib (ObjIngress i) t) = derived_contents t"
    unfolding OnDelete_ignored [OF assms]
    by (simp add: derived_contents_def t_VirtualHostCache_Notify_def vhc_Notify_def)
  have u: "derived_contents (OnUpdate lib (ObjIngress old) (ObjIngress i) t)
             = derived_contents t"
    if "ignored_class (ing_Annotations old) t"
    unfolding OnUpdate_ignored [OF that assms]
    by (simp add: derived_contents_def t_VirtualHostCache_Notify_def vhc_Notify_def)
  from a d u show ?thesis by simp
qed

theorem ignored_ingress_keeps_derived_caches_witness:
  "ignored_class (ing_Annotations ex_ingress_nginx) ex_translator_both
   \<and> listenerCache (t_ListenerCache
         (OnAdd ex_lib (ObjIngress ex_ingress_nginx) ex_translator_both))
       = listenerCache ex_lc_both
   \<and> vhc_HTTP (t_VirtualHostCache
         (OnAdd ex_lib (ObjIngress ex_ingress_nginx) ex_translator_both)) = Map.empty
   \<and> vhc_HTTP (t_VirtualHostCache
         (OnUpdate ex_lib (ObjIngress ex_ingress_nginx) (ObjIngress ex_ingress_nginx)
            ex_translator_both)) = Map.empty
   \<and> vhc_HTTP (t_VirtualHostCache
         (OnDelete ex_lib (ObjIngress ex_ingress_nginx) ex_translator_both)) = Map.empty"
proof -
  have h: "ignored_class (ing_Annotations ex_ingress_nginx) ex_translator_both"
    by (simp add: ignored_class_def ex_ingress_nginx_def ex_translator_both_def
        ex_translator_def ingressClass_def DEFAULT_INGRESS_CLASS_def)
  from ignored_ingress_keeps_derived_caches
         [OF h, of ex_lib ex_ingress_nginx] h
  show ?thesis
    by (simp add: derived_contents_def ex_translator_both_def ex_translator_def)
qed

text \<open>
  An \<open>OnUpdate\<close> whose old object is not ignored is another matter: \<open>removeIngress\<close> of
  the old object recomputes its hosts from the object cache, which by then holds the new
  object. With the object cache as modelled, the update of \<open>default/httpbin\<close> to the class
  "nginx" puts the backend of the ignored Ingress into the virtual host "httpbin.org".
\<close>

lemma update_to_ignored_class_emits_route:
  "\<not> ignored_class (ing_Annotations ex_ingress_plain) ex_translator
   \<and> ignored_class (ing_Annotations ex_ingress_nginx) ex_translator
   \<and> map_option (map route_Action \<circ> vh_Routes)
        (vhc_HTTP (t_VirtualHostCache (OnAdd ex_lib (ObjIngress ex_ingress_plain) ex_translator))
           ''httpbin.org'')
      = Some [Route_Route \<lparr>cluster_specifier = Cluster ''default/httpbin-old/80'',
                Timeout = None, UseWebsocket = None\<rparr>]
   \<and> map_option (map route_Action \<circ> vh_Routes)
        (vhc_HTTP (t_VirtualHostCache
           (OnUpdate ex_lib (ObjIngress ex_ingress_plain) (ObjIngress ex_ingress_nginx)
              (OnAdd ex_lib (ObjIngress ex_ingress_plain) ex_translator)))
           ''httpbin.org'')
      = Some [Route_Route \<lparr>cluster_specifier = Cluster ''default/httpbin-org/80'',
                Timeout = None, UseWebsocket = None\<rparr>]"
  by code_simp

text \<open>
  The IngressRoute handlers do not look at the class. Whatever the object cache holds,
  \<open>addIngressRoute\<close> writes the listener \<open>ingress_http\<close> anew from the IngressRoutes of
  the object cache (with the access log of the HTTPS listener), or removes it when there
  are none.
\<close>

lemma ex_translator_log_listener:
  "listenerCache (t_ListenerCache ex_translator_log) ENVOY_HTTP_LISTENER =
     Some \<lparr>l_Name = ''ingress_http'',
            l_Address = \<lparr>sa_Address = ''0.0.0.0'', PortValue = 8080\<rparr>,
            FilterChains =
              [\<lparr>SniDomains = None, TlsContext = None,
                 Filters = [\<lparr>filter_Name = ''envoy.http_connection_manager'',
                             route_config_name = ''ingress_http'',
                             access_log_path = ''/var/log/envoy_http.log''\<rparr>],
                 fc_UseProxyProto = None\<rparr>]\<rparr>"
  "HTTPSAccessLog (t_ListenerCache ex_translator_log) = []"
  "UseProxyProto (t_ListenerCache ex_translator_log) = False"
  by (simp_all add: ex_translator_log_def OnAdd_def addIngress_def ignored_class_def Let_def
      t_recomputeListeners_def t_recomputevhost_def t_VirtualHostCache_Notify_def
      recomputeListeners_def recomputeListener0_def recomputeTLSListener0_def
      validTLSIngress_def lc_Add_def lc_Remove_def lc_Notify_def httpAllowed_def
      annotation_def ex_ingress_timeout_def ex_translator_def ex_cache_def ex_lc_def
      put_entry_def ing_meta_def ing_hosts_def socketaddress_def httpAddress_def httpPort_def
      httpAccessLog_def filterchain_def httpfilter_def httpFilter_def
      DEFAULT_HTTP_LISTENER_ADDRESS_def DEFAULT_HTTP_LISTENER_PORT_def
      ENVOY_HTTPS_LISTENER_def ENVOY_HTTP_LISTENER_def)

lemma addIngressRoute_http_listener:
  "listenerCache (t_ListenerCache (addIngressRoute lib r t)) ENVOY_HTTP_LISTENER
     = (if routes (cache t) = [] then None
        else Some \<lparr>l_Name = ENVOY_HTTP_LISTENER,
                   l_Address = socketaddress (httpAddress (t_ListenerCache t))
                                 (httpPort (t_ListenerCache t)),
                   FilterChains =
                     [filterchain (UseProxyProto (t_ListenerCache t))
                        [httpfilter ENVOY_HTTP_LISTENER
                           (httpsAccessLog (t_ListenerCache t))]]\<rparr>)"
  by (simp add: addIngressRoute_def Let_def t_recomputevhostIngressRoute_def
      t_VirtualHostCache_Notify_def recomputeListenersIngressRoute_def
      recomputeListenerIngressRoute0_def lc_Add_def lc_Remove_def lc_Notify_def)

lemma addIngressRoute_rewrites_http_listener:
  "listenerCache (t_ListenerCache (addIngressRoute lib r (ex_translator_log\<lparr>cache := c\<rparr>)))
      ENVOY_HTTP_LISTENER
   \<noteq> listenerCache (t_ListenerCache ex_translator_log) ENVOY_HTTP_LISTENER"
  unfolding addIngressRoute_http_listener
  by (simp add: ex_translator_log_listener httpsAccessLog_def filterchain_def httpfilter_def
      DEFAULT_HTTPS_ACCESS_LOG_def)

text \<open>
  C8. An Ingress or an IngressRoute whose ingress class annotation is set and differs
  from the configured class is to leave every cache as it was, at its \<open>OnAdd\<close>,
  \<open>OnUpdate\<close> and \<open>OnDelete\<close>. \<open>addIngress\<close> and \<open>removeIngress\<close> return at once for
  such an Ingress; \<open>addIngressRoute\<close> and \<open>removeIngressRoute\<close> never read the
  annotation. So the \<open>OnAdd\<close> of the IngressRoute \<open>default/httpbin\<close> of class "nginx"
  changes the caches of a translator of the class "contour":

  \<^item> in a translator whose listener \<open>ingress_http\<close> was made for an Ingress, with an HTTP
    access log of its own, the listener is written anew with another access log
    (whatever the object cache holds, it does not stay as it was);
  \<^item> in an empty translator, the listener \<open>ingress_http\<close> and the virtual host
    "httpbin.org" appear.
\<close>

theorem ignored_ingressroute_changes_caches:
  "ignored_class (ir_Annotations ex_route_nginx) ex_translator_log
   \<and> (\<forall>c. listenerCache (t_ListenerCache
              (addIngressRoute ex_lib ex_route_nginx (ex_translator_log\<lparr>cache := c\<rparr>)))
            ENVOY_HTTP_LISTENER
          \<noteq> listenerCache (t_ListenerCache ex_translator_log) ENVOY_HTTP_LISTENER)
   \<and> map_option (\<lambda>l. map (\<lambda>fc. map access_log_path (Filters fc)) (FilterChains l))
       (listenerCache (t_ListenerCache ex_translator_log) ENVOY_HTTP_LISTENER)
       = Some [[''/var/log/envoy_http.log'']]
   \<and> map_option (\<lambda>l. map (\<lambda>fc. map access_log_path (Filters fc)) (FilterChains l))
       (listenerCache (t_ListenerCache
          (OnAdd ex_lib (ObjIngressRoute ex_route_nginx) ex_translator_log))
          ENVOY_HTTP_LISTENER)
       = Some [[''/dev/stdout'']]
   \<and> ignored_class (ir_Annotations ex_route_nginx) ex_translator
   \<and> listenerCache (t_ListenerCache ex_translator) ENVOY_HTTP_LISTENER = None
   \<and> listenerCache (t_ListenerCache
         (OnAdd ex_lib (ObjIngressRoute ex_route_nginx) ex_translator)) ENVOY_HTTP_LISTENER
       \<noteq> None
   \<and> vhc_HTTP (t_VirtualHostCache ex_translator) ''httpbin.org'' = None
   \<and> vhc_HTTP (t_VirtualHostCache
         (OnAdd ex_lib (ObjIngressRoute ex_route_nginx) ex_translator)) ''httpbin.org''
       \<noteq> None"
proof -
  have e: "ignored_class (ir_Annotations ex_route_nginx) ex_translator"
    by (simp add: ignored_class_def ingressClass_def DEFAULT_INGRESS_CLASS_def
        ex_route_nginx_def ex_translator_def)
  have i: "ignored_class (ir_Annotations ex_route_nginx) ex_translator_log"
    by (simp add: ex_translator_log_def OnAdd_def addIngress_def Let_def ignored_class_def
        ingressClass_def DEFAULT_INGRESS_CLASS_def ex_route_nginx_def ex_translator_def
        t_recomputeListeners_def t_recomputevhost_def t_VirtualHostCache_Notify_def
        annotation_def ex_ingress_timeout_def)
  have r: "put_entry k v xs \<noteq> []" for k :: metadata and v :: IngressRoute and xs
    by (auto simp add: put_entry_def)
  have l: "map_option (\<lambda>l. map (\<lambda>fc. map access_log_path (Filters fc)) (FilterChains l))
             (listenerCache (t_ListenerCache
                (OnAdd ex_lib (ObjIngressRoute ex_route_nginx) ex_translator_log))
                ENVOY_HTTP_LISTENER)
           = Some [[''/dev/stdout'']]"
    by (simp add: OnAdd_def addIngressRoute_http_listener r ex_translator_log_listener
        httpsAccessLog_def filterchain_def httpfilter_def DEFAULT_HTTPS_ACCESS_LOG_def)
  have n: "listenerCache (t_ListenerCache ex_translator) ENVOY_HTTP_LISTENER = None
     \<and> listenerCache (t_ListenerCache
           (OnAdd ex_lib (ObjIngressRoute ex_route_nginx) ex_translator)) ENVOY_HTTP_LISTENER
         \<noteq> None
     \<and> vhc_HTTP (t_VirtualHostCache ex_translator) ''httpbin.org'' = None
     \<and> vhc_HTTP (t_VirtualHostCache
           (OnAdd ex_lib (ObjIngressRoute ex_route_nginx) ex_translator)) ''httpbin.org''
         \<noteq> None"
    by (simp add: ex_route_nginx_def ex_translator_def ex_cache_def ex_lc_def
        ex_lib_def OnAdd_def addIngressRoute_def Let_def
        recomputeListenersIngressRoute_def recomputeListenerIngressRoute0_def
        lc_Add_def lc_Remove_def lc_Notify_def t_recomputevhostIngressRoute_def
        recomputevhostIngressRoute_def vh_store_def virtualhost_def virtualhost_name_def
        ingressroute_routes_def ir_host_def longestRouteFirst_def put_entry_def
        ir_meta_def t_VirtualHostCache_Notify_def vhc_Notify_def ENVOY_HTTP_LISTENER_def)
  from e i l n addIngressRoute_rewrites_http_listener [of ex_lib ex_route_nginx]
  show ?thesis by (simp add: ex_translator_log_listener)
qed

section \<open>Properties of the routes of an IngressRoute\<close>

lemma length_route_weights [simp]: "length (route_weights ws) = length ws"
  by (simp add: route_weights_def Let_def)









lemma ex_weights:
  "route_weights [Some 33, Some 2, None] = [33, 2, 65]"
  "route_weights [None, None] = [50, 50]"
  "route_weights [Some 33, None] = [33, 67]"
  "route_weights [None, None, None] = [34, 33, 33]"
  "route_weights [Some 33, Some 33] = [33, 33]"
  by (simp_all add: route_weights_def specified_sum_def upt_conv_Cons)









section \<open>Properties of the virtual hosts of an Ingress\<close>

lemma longestRouteFirst_Nil [simp]: "longestRouteFirst rs = [] \<longleftrightarrow> rs = []"
proof -
  have "length (longestRouteFirst rs) = length rs" by (simp add: longestRouteFirst_def)
  then show ?thesis by (metis length_0_conv)
qed

lemma set_longestRouteFirst [simp]: "set (longestRouteFirst rs) = set rs"
  by (simp add: longestRouteFirst_def)










section \<open>Properties of the request timeout\<close>

lemma request_timeout_cases:
  "request_timeout lib i =
     (case ing_Annotations i annotationRequestTimeout of
        None \<Rightarrow> None
      | Some v \<Rightarrow> Some (if v = ''infinity'' then 0
                        else case lib_ParseDuration lib v of None \<Rightarrow> 0 | Some d \<Rightarrow> d))"
  by (simp add: request_timeout_def infiniteTimeout_def split: option.splits)

lemma ingress_routes_cluster_timeout:
  assumes "rt \<in> set (ingress_routes (clusteraction lib) lib vhost i)"
  shows "\<exists>ra. route_Action rt = Route_Route ra \<and> Timeout ra = request_timeout lib i"
  using assms
  by (auto simp: ingress_routes_def clusteraction_def split: option.splits if_splits)

lemma ingress_routes_http_timeout:
  assumes "rt \<in> set (ingress_routes (http_action lib) lib vhost i)"
    "route_Action rt = Route_Route ra"
  shows "Timeout ra = request_timeout lib i"
  using assms
  by (auto simp: ingress_routes_def http_action_def clusteraction_def
      split: option.splits if_splits)

lemma https_routes_from:
  assumes "rt \<in> set (https_routes lib vhost ings)"
  shows "\<exists>(m, i) \<in> set ings. rt \<in> set (ingress_routes (clusteraction lib) lib vhost i)"
  using assms by (auto simp: https_routes_def split: if_splits)

lemma http_routes_from:
  assumes "rt \<in> set (http_routes lib vhost ings)"
  shows "\<exists>(m, i) \<in> set ings. rt \<in> set (ingress_routes (http_action lib) lib vhost i)"
  using assms by (auto simp: http_routes_def split: if_splits)


text \<open>
  C7. The timeout of an Ingress is unset when the request-timeout annotation is absent;
  with the annotation it is set: to zero for the value \<open>infinity\<close> and for a value that
  does not parse as a duration, and to the parsed duration otherwise. Every
  route-to-cluster action emitted for the Ingress, on the HTTPS and on the HTTP side,
  carries this timeout (an HTTP route of an Ingress with \<open>force-ssl-redirect\<close> is a
  redirect and has no timeout), and every route of a recomputed VirtualHost is a route
  of one of its ingresses.
\<close>

theorem request_timeout_of_routes:
  "request_timeout lib i =
     (case ing_Annotations i annotationRequestTimeout of
        None \<Rightarrow> None
      | Some v \<Rightarrow> Some (if v = ''infinity'' then 0
                        else case lib_ParseDuration lib v of None \<Rightarrow> 0 | Some d \<Rightarrow> d))
   \<and> (\<forall>rt \<in> set (ingress_routes (clusteraction lib) lib vhost i).
         \<exists>ra. route_Action rt = Route_Route ra \<and> Timeout ra = request_timeout lib i)
   \<and> (\<forall>rt \<in> set (ingress_routes (http_action lib) lib vhost i).
         \<forall>ra. route_Action rt = Route_Route ra \<longrightarrow> Timeout ra = request_timeout lib i)
   \<and> (\<forall>rt \<in> set (https_routes lib vhost ings).
         \<exists>(m, j) \<in> set ings. rt \<in> set (ingress_routes (clusteraction lib) lib vhost j))
   \<and> (\<forall>rt \<in> set (http_routes lib vhost ings).
         \<exists>(m, j) \<in> set ings. rt \<in> set (ingress_routes (http_action lib) lib vhost j))"
  using request_timeout_cases [of lib i]
    ingress_routes_cluster_timeout [of _ lib vhost i]
    ingress_routes_http_timeout [of _ lib vhost i]
    https_routes_from [of _ lib vhost ings] http_routes_from [of _ lib vhost ings]
  by blast

lemma ex_timeout_values:
  "request_timeout ex_lib (ex_ingress_timeout None) = None"
  "request_timeout ex_lib (ex_ingress_timeout (Some ''600'')) = Some 0"
  "request_timeout ex_lib (ex_ingress_timeout (Some ''600s'')) = Some 600000000000"
  "request_timeout ex_lib (ex_ingress_timeout (Some ''infinity'')) = Some 0"
  by (simp_all add: request_timeout_def ex_ingress_timeout_def ex_lib_def ex_ParseDuration_def
      annotationRequestTimeout_def infiniteTimeout_def)

lemma ex_timeout_vhost:
  "map_option vh_Routes
     (vhc_HTTP (recomputevhost ex_lib ''*''
        [(ing_meta (ex_ingress_timeout v), ex_ingress_timeout v)] ex_vhc) ''*'')
   = Some [\<lparr>route_Match = Prefix ''/'',
            route_Action = Route_Route
              \<lparr>cluster_specifier = Cluster ''default/backend/80'',
               Timeout = request_timeout ex_lib (ex_ingress_timeout v),
               UseWebsocket = None\<rparr>\<rparr>]"
  by (simp add: recomputevhost_def vh_store_def virtualhost_def virtualhost_name_def
      http_routes_def httpAllowed_def annotation_def ingress_routes_def http_action_def
      clusteraction_def annotationForceSSLRedirect_def websocket_routes_def
      annotationWebsocketRoutes_def ingressBackendToClusterName_def clustername_def
      longestRouteFirst_def ex_ingress_timeout_def ex_backend_def ex_vhc_def itoa_def
      itoa_nat.simps)


theorem request_timeout_of_routes_witness:
  "request_timeout ex_lib (ex_ingress_timeout None) = None
   \<and> request_timeout ex_lib (ex_ingress_timeout (Some ''600'')) = Some 0
   \<and> request_timeout ex_lib (ex_ingress_timeout (Some ''600s'')) = Some 600000000000
   \<and> request_timeout ex_lib (ex_ingress_timeout (Some ''infinity'')) = Some 0
   \<and> map_option vh_Routes
        (vhc_HTTP (recomputevhost ex_lib ''*''
           [(ing_meta (ex_ingress_timeout (Some ''600s'')), ex_ingress_timeout (Some ''600s''))]
           ex_vhc) ''*'')
      = Some [\<lparr>route_Match = Prefix ''/'',
               route_Action = Route_Route
                 \<lparr>cluster_specifier = Cluster ''default/backend/80'',
                  Timeout = Some 600000000000, UseWebsocket = None\<rparr>\<rparr>]"
  using request_timeout_of_routes [of ex_lib "ex_ingress_timeout None" "''*''" "[]"]
    request_timeout_of_routes [of ex_lib "ex_ingress_timeout (Some ''600'')" "''*''" "[]"]
    request_timeout_of_routes [of ex_lib "ex_ingress_timeout (Some ''600s'')" "''*''" "[]"]
    request_timeout_of_routes [of ex_lib "ex_ingress_timeout (Some ''infinity'')" "''*''" "[]"]
    ex_timeout_vhost [of "Some ''600s''"] ex_timeout_values
  by simp

end
